theory Spec2Isabelle
  imports Main "HOL-Library.Sublist"
begin

section \<open>Python values used by the pipeline\<close>

text \<open>
  Strings are HOL strings (lists of 8-bit characters): a Python text is the list of its
  UTF-8 bytes, so a character outside ASCII takes two to four of them.
\<close>

fun starts_with :: "string \<Rightarrow> string \<Rightarrow> bool" where
  "starts_with [] s = True"
| "starts_with (c # cs) [] = False"
| "starts_with (c # cs) (d # ds) = (c = d \<and> starts_with cs ds)"

text \<open>\<open>contains sub s\<close> is Python's \<^verbatim>\<open>sub in s\<close>.\<close>

fun contains :: "string \<Rightarrow> string \<Rightarrow> bool" where
  "contains sub [] = (sub = [])"
| "contains sub (c # cs) = (starts_with sub (c # cs) \<or> contains sub cs)"

text \<open>
  \<open>lower\<close> folds the letters A to Z, as \<^verbatim>\<open>str.lower\<close> does to them. The program
  uses the lowered text only to look for ASCII patterns in it.
\<close>

definition lower_char :: "char \<Rightarrow> char" where
  "lower_char c =
     (let n = (of_char c :: nat) in if 65 \<le> n \<and> n \<le> 90 then char_of (n + 32) else c)"

definition lower :: "string \<Rightarrow> string" where
  "lower s = map lower_char s"

text \<open>
  The characters that \<^verbatim>\<open>str.strip\<close> removes, those \<^verbatim>\<open>str.isspace\<close> accepts, each
  as its UTF-8 bytes: U+0009 to U+000D, U+001C to U+0020, U+0085, U+00A0, U+1680,
  U+2000 to U+200A, U+2028, U+2029, U+202F, U+205F and U+3000.
\<close>

definition space_codes :: "string list" where
  "space_codes =
     [[CHR 0x09], [CHR 0x0A], [CHR 0x0B], [CHR 0x0C], [CHR 0x0D],
      [CHR 0x1C], [CHR 0x1D], [CHR 0x1E], [CHR 0x1F], [CHR 0x20],
      [CHR 0xC2, CHR 0x85], [CHR 0xC2, CHR 0xA0], [CHR 0xE1, CHR 0x9A, CHR 0x80],
      [CHR 0xE2, CHR 0x80, CHR 0x80], [CHR 0xE2, CHR 0x80, CHR 0x81],
      [CHR 0xE2, CHR 0x80, CHR 0x82], [CHR 0xE2, CHR 0x80, CHR 0x83],
      [CHR 0xE2, CHR 0x80, CHR 0x84], [CHR 0xE2, CHR 0x80, CHR 0x85],
      [CHR 0xE2, CHR 0x80, CHR 0x86], [CHR 0xE2, CHR 0x80, CHR 0x87],
      [CHR 0xE2, CHR 0x80, CHR 0x88], [CHR 0xE2, CHR 0x80, CHR 0x89],
      [CHR 0xE2, CHR 0x80, CHR 0x8A], [CHR 0xE2, CHR 0x80, CHR 0xA8],
      [CHR 0xE2, CHR 0x80, CHR 0xA9], [CHR 0xE2, CHR 0x80, CHR 0xAF],
      [CHR 0xE2, CHR 0x81, CHR 0x9F], [CHR 0xE3, CHR 0x80, CHR 0x80]]"

text \<open>The number of bytes of the character of \<open>codes\<close> that \<open>s\<close> starts with, 0 if it starts with none.\<close>

definition code_prefix :: "string list \<Rightarrow> string \<Rightarrow> nat" where
  "code_prefix codes s =
     (case find (\<lambda>w. w \<noteq> [] \<and> starts_with w s) codes of
        None \<Rightarrow> 0
      | Some w \<Rightarrow> length w)"

text \<open>The loop that skips the leading characters of \<open>codes\<close>.\<close>

function strip_leading :: "string list \<Rightarrow> string \<Rightarrow> string" where
  "strip_leading codes s =
     (if code_prefix codes s = 0 then s
      else strip_leading codes (drop (code_prefix codes s) s))"
  by pat_completeness auto
termination
proof (relation "measure (\<lambda>(codes, s). length s)")
  show "wf (measure (\<lambda>(codes, s). length s))"
    by simp
next
  fix codes :: "string list" and s :: string
  assume pos: "code_prefix codes s \<noteq> 0"
  then obtain w where "find (\<lambda>w. w \<noteq> [] \<and> starts_with w s) codes = Some w"
    by (cases "find (\<lambda>w. w \<noteq> [] \<and> starts_with w s) codes") (auto simp: code_prefix_def)
  then have "w \<noteq> [] \<and> starts_with w s"
    by (auto simp: find_Some_iff)
  then have "s \<noteq> []"
    by (cases w) auto
  with pos show "((codes, drop (code_prefix codes s) s), (codes, s))
      \<in> measure (\<lambda>(codes, s). length s)"
    by simp
qed

declare strip_leading.simps [simp del]

text \<open>
  \<^verbatim>\<open>str.strip()\<close>: the whitespace at the start is skipped, then the whitespace at the
  end, read backwards (in UTF-8 the last bytes of a text are those of its last character).
\<close>

definition strip :: "string \<Rightarrow> string" where
  "strip s = rev (strip_leading (map rev space_codes) (rev (strip_leading space_codes s)))"

text \<open>Python's truth value of an optional string: \<^verbatim>\<open>None\<close> and \<^verbatim>\<open>""\<close> are false.\<close>

fun truthy :: "string option \<Rightarrow> bool" where
  "truthy None = False"
| "truthy (Some s) = (s \<noteq> [])"

text \<open>
  The slice \<^verbatim>\<open>xs[:n]\<close> for a Python integer \<open>n\<close>: a negative bound counts from
  the end of the list.
\<close>

definition slice_to :: "'a list \<Rightarrow> int \<Rightarrow> 'a list" where
  "slice_to xs n =
     (if n < 0 then take (nat (int (length xs) + n)) xs else take (nat n) xs)"

text \<open>The decimal text of a natural number, as an f-string renders it.\<close>

fun show_nat :: "nat \<Rightarrow> string" where
  "show_nat n =
     (if n < 10 then [char_of (48 + n)]
      else show_nat (n div 10) @ [char_of (48 + n mod 10)])"

declare show_nat.simps [simp del]

text \<open>
  A value read from a JSON object with \<^verbatim>\<open>dict.get\<close>: the key may be absent (the
  default is used), hold \<^verbatim>\<open>null\<close>, or hold a value.
\<close>

datatype 'a field = Absent | Null | Holds 'a

text \<open>Exceptions, by the classes the handlers of the program tell apart.\<close>

datatype exn_class =
    RequestException | SMTPException | AttributeError | TypeError | IndexError
  | ValueError | OSError | APIError

datatype exn = Exn (exn_kind: exn_class) (exn_message: string)

section \<open>Topics\<close>

text \<open>
  The popularity score \<^verbatim>\<open>hotwordnum\<close> arrives as a number or as a string. What the
  program does with it is \<^verbatim>\<open>int(hotwordnum)\<close> and f-string rendering, so a weight
  is its rendered text together with the result of \<^verbatim>\<open>int\<close> on it, when that
  does not raise.
\<close>

datatype weight = Coercible (as_int: int) (as_text: string) | NotCoercible (as_text: string)

text \<open>A topic is a JSON object; each of its three keys may be missing.\<close>

record topic =
  hottag :: "string option"
  hotword :: "string option"
  hotwordnum :: "weight option"

definition get_hottag :: "topic \<Rightarrow> string" where
  "get_hottag t = (case hottag t of None \<Rightarrow> [] | Some s \<Rightarrow> s)"

definition get_hotword :: "topic \<Rightarrow> string" where
  "get_hotword t = (case hotword t of None \<Rightarrow> [] | Some s \<Rightarrow> s)"

definition get_hotwordnum :: "topic \<Rightarrow> weight" where
  "get_hotwordnum t = (case hotwordnum t of None \<Rightarrow> Coercible 0 ''0'' | Some w \<Rightarrow> w)"

section \<open>The rendered notification\<close>

text \<open>
  \<^verbatim>\<open>_generate_html\<close> builds one table row per topic of \<^verbatim>\<open>topics[:30]\<close>, numbered
  from 1, and places the rows and the summary in a fixed page. The page is kept as its
  variable parts: the summary and the rows, each row as the values the template
  interpolates. A weight of at least 10000 is shown divided by 10000 with one decimal and
  the unit character (\<open>Wan\<close>), a smaller one as the integer, one that \<^verbatim>\<open>int\<close>
  rejects as its raw text.
\<close>

datatype heat = Wan int | Plain int | RawText string

definition heat_of :: "weight \<Rightarrow> heat" where
  "heat_of w =
     (case w of
        Coercible n s \<Rightarrow> if n \<ge> 10000 then Wan n else Plain n
      | NotCoercible s \<Rightarrow> RawText s)"

record row =
  row_rank :: nat
  row_tag :: string
  row_url :: string
  row_word :: string
  row_heat :: heat

definition render_row :: "nat \<Rightarrow> topic \<Rightarrow> row" where
  "render_row i t =
     \<lparr>row_rank = i,
      row_tag = get_hottag t,
      row_url = ''https://s.weibo.com/weibo?q='' @ get_hotword t,
      row_word = get_hotword t,
      row_heat = heat_of (get_hotwordnum t)\<rparr>"

record html =
  html_summary :: string
  html_rows :: "row list"

definition generate_html :: "string \<Rightarrow> topic list \<Rightarrow> html" where
  "generate_html summary topics =
     \<lparr>html_summary = summary,
      html_rows = map (\<lambda>(i, t). render_row i t) (enumerate 1 (take 30 topics))\<rparr>"

section \<open>What a run does besides returning\<close>

text \<open>
  Each operation returns its value together with the list of its effects, in order:
  network calls, waits, file writes, constructions of the stage objects, and the
  error and warning lines of the log. Informational log lines are left out. A log line
  is kept as the values its text interpolates.
\<close>

datatype component = Fetcher | Summarizer | Notifier

text \<open>
  A prompt is a fixed instruction template around the content: the one of
  \<^verbatim>\<open>WeiboSummarizer\<close>, or the one of \<^verbatim>\<open>DeepSeekSummarizer\<close> with its optional context.
\<close>

datatype prompt = WeiboPrompt string | RedditPrompt string string

datatype log_line =
    ApiReturnedError string
  | RequestFailed string
  | FetchFailed string
  | SummarizeFailed string
  | ContentEmpty
  | EmptyResponseObject
  | NoChoices
  | NoExtractableText
  | SummaryEmpty
  | SummaryBlank
  | AttemptFailed nat string
  | RequestErrorNoRetry string
  | RetriesExhausted nat "string option"
  | SendAttemptFailed nat string
  | SendFailed string
  | NoTopicData
  | SummaryFailed
  | EmailNotSent
  | ConfigMissing string
  | ProgramFailed string

datatype event =
    Constructed component
  | HttpGet
  | CompletionCall nat prompt
  | Sleep nat
  | SmtpSession nat html
  | FileWritten string
  | Log log_line

text \<open>The indices of the completion calls and of the mail sessions of a run, in order.\<close>

definition call_indices :: "event list \<Rightarrow> nat list" where
  "call_indices evs = concat (map (\<lambda>e. case e of CompletionCall k p \<Rightarrow> [k] | _ \<Rightarrow> []) evs)"

definition session_indices :: "event list \<Rightarrow> nat list" where
  "session_indices evs = concat (map (\<lambda>e. case e of SmtpSession k m \<Rightarrow> [k] | _ \<Rightarrow> []) evs)"

definition http_requests :: "event list \<Rightarrow> nat" where
  "http_requests evs = length (filter (\<lambda>e. e = HttpGet) evs)"

section \<open>WeiboFetcher\<close>

text \<open>The response envelope \<^verbatim>\<open>{code, msg, result: {list}}\<close> of the ranking provider.\<close>

record result_obj =
  list_field :: "topic list field"

record envelope =
  code_field :: "int field"
  msg_field :: "string field"
  result_field :: "result_obj field"

text \<open>
  The outcome of the one HTTP exchange: \<^verbatim>\<open>requests.get\<close> or
  \<^verbatim>\<open>raise_for_status\<close> raises a \<^verbatim>\<open>RequestException\<close>,
  \<^verbatim>\<open>response.json()\<close> raises on a body that is no JSON, or the body parses to an
  envelope.
\<close>

datatype http_result = RequestFails string | JsonFails string | Body envelope

text \<open>The default message \<^verbatim>\<open>data.get("msg", ...)\<close> falls back to (four CJK characters, as UTF-8).\<close>

definition unknown_error_msg :: string where
  "unknown_error_msg =
     [CHR 0xE6, CHR 0x9C, CHR 0xAA, CHR 0xE7, CHR 0x9F, CHR 0xA5,
      CHR 0xE9, CHR 0x94, CHR 0x99, CHR 0xE8, CHR 0xAF, CHR 0xAF]"

definition get_msg :: "envelope \<Rightarrow> string" where
  "get_msg d = (case msg_field d of Absent \<Rightarrow> unknown_error_msg | Null \<Rightarrow> ''None'' | Holds m \<Rightarrow> m)"

text \<open>
  The body of the \<^verbatim>\<open>try\<close> block of \<^verbatim>\<open>fetch_hot_topics\<close>: its effects, and either
  the exception it raises or the value it returns.
\<close>

definition fetch_try :: "http_result \<Rightarrow> int \<Rightarrow> event list \<times> (exn + topic list)" where
  "fetch_try http limit =
     (case http of
        RequestFails m \<Rightarrow> ([HttpGet], Inl (Exn RequestException m))
      | JsonFails m \<Rightarrow> ([HttpGet], Inl (Exn ValueError m))
      | Body d \<Rightarrow>
          if code_field d \<noteq> Holds 200
          then ([HttpGet, Log (ApiReturnedError (get_msg d))], Inr [])
          else (case result_field d of
                  Absent \<Rightarrow> ([HttpGet], Inr (slice_to [] limit))
                | Null \<Rightarrow>
                    ([HttpGet],
                     Inl (Exn AttributeError ''NoneType object has no attribute get''))
                | Holds r \<Rightarrow>
                    (case list_field r of
                       Absent \<Rightarrow> ([HttpGet], Inr (slice_to [] limit))
                     | Null \<Rightarrow>
                         ([HttpGet],
                          Inl (Exn TypeError ''NoneType object is not subscriptable''))
                     | Holds xs \<Rightarrow> ([HttpGet], Inr (slice_to xs limit)))))"

text \<open>The two handlers: both log the exception's text and return the empty list.\<close>

definition fetch_run :: "http_result \<Rightarrow> int \<Rightarrow> topic list \<times> event list" where
  "fetch_run http limit =
     (case fetch_try http limit of
        (evs, Inr topics) \<Rightarrow> (topics, evs)
      | (evs, Inl e) \<Rightarrow>
          if exn_kind e = RequestException
          then ([], evs @ [Log (RequestFailed (exn_message e))])
          else ([], evs @ [Log (FetchFailed (exn_message e))]))"

definition fetch_hot_topics :: "http_result \<Rightarrow> int \<Rightarrow> topic list" where
  "fetch_hot_topics http limit = fst (fetch_run http limit)"

section \<open>The completion provider\<close>

text \<open>
  A choice of a completion response. The program looks for \<^verbatim>\<open>choice.message.content\<close>
  and then for \<^verbatim>\<open>choice.text\<close> with \<^verbatim>\<open>hasattr\<close>: each is missing
  (\<open>None\<close>), present and \<^verbatim>\<open>None\<close> (\<open>Some None\<close>), or a string.
\<close>

record choice =
  choice_message_content :: "string option option"
  choice_text :: "string option option"

text \<open>A response object; \<open>None\<close> for its choices: the attribute is missing or \<^verbatim>\<open>None\<close>.\<close>

datatype response = Response (response_choices: "choice list option")

text \<open>
  One call of \<^verbatim>\<open>client.chat.completions.create\<close> raises an exception with a message, or
  returns a response object, which may be false (\<open>Returns None\<close>). The provider is the
  function from the index of a call to what that call does.
\<close>

datatype api_result = Raises string | Returns "response option"

type_synonym completions = "nat \<Rightarrow> api_result"

section \<open>DeepSeekSummarizer\<close>

record ds_config =
  max_retries :: nat
  retry_delay :: nat

text \<open>The values the constructor sets.\<close>

definition default_config :: ds_config where
  "default_config = \<lparr>max_retries = 3, retry_delay = 2\<rparr>"

text \<open>The branches of the exception handler, in the order the handler tests them.\<close>

datatype error_class = RateLimit | ServerError | ClientError | NetworkError

definition classify :: "string \<Rightarrow> error_class" where
  "classify error_msg =
     (if contains ''429'' error_msg \<or> contains ''rate limit'' (lower error_msg)
         \<or> contains ''quota'' (lower error_msg)
      then RateLimit
      else if contains ''500'' error_msg \<or> contains ''503'' error_msg
         \<or> contains ''service unavailable'' (lower error_msg)
      then ServerError
      else if contains ''400'' error_msg \<or> contains ''401'' error_msg
         \<or> contains ''403'' error_msg \<or> contains ''404'' error_msg
      then ClientError
      else NetworkError)"

text \<open>The two waits the handler computes, for the 0-based attempt index.\<close>

definition quota_wait :: "ds_config \<Rightarrow> nat \<Rightarrow> nat" where
  "quota_wait cfg attempt = retry_delay cfg * (attempt + 1) * 2"

definition retry_wait :: "ds_config \<Rightarrow> nat \<Rightarrow> nat" where
  "retry_wait cfg attempt = retry_delay cfg * (attempt + 1)"

text \<open>
  The body of the \<^verbatim>\<open>try\<close> block of one attempt, after the call: the message of the
  exception raised (\<open>Inl\<close>), the log line before a \<^verbatim>\<open>continue\<close>, or the summary
  returned.
\<close>

definition attempt_body :: "api_result \<Rightarrow> string + (log_line + string)" where
  "attempt_body res =
     (case res of
        Raises m \<Rightarrow> Inl m
      | Returns None \<Rightarrow> Inr (Inl EmptyResponseObject)
      | Returns (Some r) \<Rightarrow>
          (case response_choices r of
             None \<Rightarrow> Inr (Inl NoChoices)
           | Some [] \<Rightarrow> Inr (Inl NoChoices)
           | Some (c # cs) \<Rightarrow>
               (case (case choice_message_content c of
                        Some v \<Rightarrow> Some v
                      | None \<Rightarrow> choice_text c) of
                  None \<Rightarrow> Inr (Inl NoExtractableText)
                | Some None \<Rightarrow> Inr (Inl SummaryEmpty)
                | Some (Some summary_text) \<Rightarrow>
                    if summary_text = [] then Inr (Inl SummaryEmpty)
                    else if strip summary_text = [] then Inr (Inl SummaryBlank)
                    else Inr (Inr (strip summary_text)))))"

text \<open>
  The retry loop \<^verbatim>\<open>for attempt in range(self.max_retries)\<close>, from the given attempt on,
  with the value of \<^verbatim>\<open>last_error\<close> and the effects so far. It returns the value
  of \<^verbatim>\<open>summarize\<close>, the final \<^verbatim>\<open>last_error\<close> and all effects.
\<close>

function summarize_loop ::
  "ds_config \<Rightarrow> completions \<Rightarrow> prompt \<Rightarrow> nat \<Rightarrow> string option \<Rightarrow> event list
     \<Rightarrow> string option \<times> string option \<times> event list" where
  "summarize_loop cfg api p attempt last_error evs =
     (if attempt < max_retries cfg then
        (case attempt_body (api attempt) of
           Inr (Inr summary) \<Rightarrow> (Some summary, last_error, evs @ [CompletionCall attempt p])
         | Inr (Inl line) \<Rightarrow>
             summarize_loop cfg api p (Suc attempt) last_error
               (evs @ [CompletionCall attempt p, Log line])
         | Inl error_msg \<Rightarrow>
             (case classify error_msg of
                RateLimit \<Rightarrow>
                  summarize_loop cfg api p (Suc attempt) (Some error_msg)
                    (evs @ [CompletionCall attempt p, Log (AttemptFailed (attempt + 1) error_msg),
                            Sleep (quota_wait cfg attempt)])
              | ServerError \<Rightarrow>
                  summarize_loop cfg api p (Suc attempt) (Some error_msg)
                    (evs @ [CompletionCall attempt p, Log (AttemptFailed (attempt + 1) error_msg),
                            Sleep (retry_wait cfg attempt)])
              | ClientError \<Rightarrow>
                  (None, Some error_msg,
                   evs @ [CompletionCall attempt p, Log (AttemptFailed (attempt + 1) error_msg),
                          Log (RequestErrorNoRetry error_msg)])
              | NetworkError \<Rightarrow>
                  summarize_loop cfg api p (Suc attempt) (Some error_msg)
                    (evs @ [CompletionCall attempt p, Log (AttemptFailed (attempt + 1) error_msg)]
                         @ (if attempt < max_retries cfg - 1
                            then [Sleep (retry_wait cfg attempt)] else []))))
      else (None, last_error, evs @ [Log (RetriesExhausted (max_retries cfg) last_error)]))"
  by pat_completeness auto
termination
  by (relation "measure (\<lambda>(cfg, api, p, attempt, last_error, evs). max_retries cfg - attempt)")
     auto

declare summarize_loop.simps [simp del]

text \<open>\<^verbatim>\<open>DeepSeekSummarizer.summarize(content, context)\<close>.\<close>

definition deepseek_run ::
  "ds_config \<Rightarrow> completions \<Rightarrow> string \<Rightarrow> string
     \<Rightarrow> string option \<times> string option \<times> event list" where
  "deepseek_run cfg api content context =
     (if content = [] \<or> length (strip content) = 0
      then (None, None, [Log ContentEmpty])
      else summarize_loop cfg api (RedditPrompt content context) 0 None [])"

definition deepseek_summarize :: "ds_config \<Rightarrow> completions \<Rightarrow> string \<Rightarrow> string \<Rightarrow> string option" where
  "deepseek_summarize cfg api content context = fst (deepseek_run cfg api content context)"

text \<open>
  The outcome of one attempt, as the loop treats it: it returns the summary, it returns
  \<^verbatim>\<open>None\<close> at once, or the loop goes on to the next attempt.
\<close>

datatype call_outcome = Success string | FatalFailure string | RetryableFailure

definition outcome :: "api_result \<Rightarrow> call_outcome" where
  "outcome res =
     (case attempt_body res of
        Inr (Inr summary) \<Rightarrow> Success summary
      | Inr (Inl line) \<Rightarrow> RetryableFailure
      | Inl error_msg \<Rightarrow>
          if classify error_msg = ClientError then FatalFailure error_msg else RetryableFailure)"

text \<open>The text of the first generated message of a call, where the response has one.\<close>

definition completion_text :: "api_result \<Rightarrow> string option" where
  "completion_text res =
     (case res of
        Returns (Some (Response (Some (c # cs)))) \<Rightarrow>
          (case choice_message_content c of
             Some v \<Rightarrow> v
           | None \<Rightarrow> (case choice_text c of Some v \<Rightarrow> v | None \<Rightarrow> None))
      | _ \<Rightarrow> None)"

text \<open>The message of the last call among the first \<open>n\<close> that raised, if any did.\<close>

fun last_raised :: "completions \<Rightarrow> nat \<Rightarrow> string option" where
  "last_raised api 0 = None"
| "last_raised api (Suc n) =
     (case api n of Raises m \<Rightarrow> Some m | Returns r \<Rightarrow> last_raised api n)"

section \<open>WeiboSummarizer\<close>

text \<open>The label of the weight in a rendered line (two CJK characters, as UTF-8).\<close>

definition heat_label :: string where
  "heat_label = [CHR 0xE7, CHR 0x83, CHR 0xAD, CHR 0xE5, CHR 0xBA, CHR 0xA6]"

definition render_line :: "nat \<Rightarrow> topic \<Rightarrow> string" where
  "render_line i t =
     show_nat (i + 1) @ ''. ['' @ get_hottag t @ ''] '' @ get_hotword t
       @ '' ('' @ heat_label @ '': '' @ as_text (get_hotwordnum t) @ '')''"

fun join :: "string \<Rightarrow> string list \<Rightarrow> string" where
  "join sep [] = []"
| "join sep [x] = x"
| "join sep (x # y # ys) = x @ sep @ join sep (y # ys)"

definition render_content :: "topic list \<Rightarrow> string" where
  "render_content topics =
     join [CHR 0x0A] (map (\<lambda>(i, t). render_line i t) (enumerate 0 (take 30 topics)))"

text \<open>
  The \<^verbatim>\<open>try\<close> block after the call:
  \<^verbatim>\<open>response.choices[0].message.content.strip()\<close>, with the exception each missing
  part raises.
\<close>

definition weibo_try :: "api_result \<Rightarrow> exn + string" where
  "weibo_try res =
     (case res of
        Raises m \<Rightarrow> Inl (Exn APIError m)
      | Returns None \<Rightarrow> Inl (Exn AttributeError ''NoneType object has no attribute choices'')
      | Returns (Some r) \<Rightarrow>
          (case response_choices r of
             None \<Rightarrow> Inl (Exn TypeError ''NoneType object is not subscriptable'')
           | Some [] \<Rightarrow> Inl (Exn IndexError ''list index out of range'')
           | Some (c # cs) \<Rightarrow>
               (case choice_message_content c of
                  None \<Rightarrow> Inl (Exn AttributeError ''object has no attribute content'')
                | Some None \<Rightarrow> Inl (Exn AttributeError ''NoneType object has no attribute strip'')
                | Some (Some s) \<Rightarrow> Inr (strip s))))"

text \<open>\<^verbatim>\<open>WeiboSummarizer.summarize(topics)\<close>: one call, and the handler of every exception.\<close>

definition weibo_run :: "completions \<Rightarrow> topic list \<Rightarrow> string option \<times> event list" where
  "weibo_run api topics =
     (case weibo_try (api 0) of
        Inr summary \<Rightarrow> (Some summary, [CompletionCall 0 (WeiboPrompt (render_content topics))])
      | Inl e \<Rightarrow>
          (None, [CompletionCall 0 (WeiboPrompt (render_content topics)),
                  Log (SummarizeFailed (exn_message e))]))"

definition weibo_summarize :: "completions \<Rightarrow> topic list \<Rightarrow> string option" where
  "weibo_summarize api topics = fst (weibo_run api topics)"

section \<open>WeiboEmailNotifier\<close>

text \<open>
  One mail session (\<^verbatim>\<open>with smtplib.SMTP_SSL(...)\<close>: connect, log in, send, close): it
  goes through, it raises an \<^verbatim>\<open>smtplib.SMTPException\<close>, or it raises an exception of
  another class (a refused or timed-out connection and a TLS failure raise
  \<^verbatim>\<open>OSError\<close>s that are no \<^verbatim>\<open>SMTPException\<close>). The transport is the function from
  the index of a session to what it does.
\<close>

datatype smtp_result = Sent | SmtpFails string | OtherFails string

type_synonym transport = "nat \<Rightarrow> smtp_result"

definition is_smtp_failure :: "smtp_result \<Rightarrow> bool" where
  "is_smtp_failure r = (case r of SmtpFails m \<Rightarrow> True | _ \<Rightarrow> False)"

text \<open>
  The loop \<^verbatim>\<open>for attempt in range(3)\<close> from the given attempt on: the effects, and the
  exception that leaves the loop or the value returned.
\<close>

function send_loop :: "transport \<Rightarrow> html \<Rightarrow> nat \<Rightarrow> event list \<Rightarrow> event list \<times> (exn + bool)" where
  "send_loop smtp msg attempt evs =
     (if attempt < 3 then
        (case smtp attempt of
           Sent \<Rightarrow> (evs @ [SmtpSession attempt msg], Inr True)
         | SmtpFails m \<Rightarrow>
             if attempt = 2
             then (evs @ [SmtpSession attempt msg, Log (SendAttemptFailed (attempt + 1) m)],
                   Inl (Exn SMTPException m))
             else send_loop smtp msg (Suc attempt)
                    (evs @ [SmtpSession attempt msg, Log (SendAttemptFailed (attempt + 1) m)])
         | OtherFails m \<Rightarrow> (evs @ [SmtpSession attempt msg], Inl (Exn OSError m)))
      else (evs, Inr False))"
  by pat_completeness auto
termination
  by (relation "measure (\<lambda>(smtp, msg, attempt, evs). 3 - attempt)") auto

declare send_loop.simps [simp del]

text \<open>\<^verbatim>\<open>send_email(summary, topics)\<close>: the message is rendered, the loop runs, and the outer handler turns every exception into \<^verbatim>\<open>False\<close>.\<close>

definition send_run :: "transport \<Rightarrow> string \<Rightarrow> topic list \<Rightarrow> bool \<times> event list" where
  "send_run smtp summary topics =
     (case send_loop smtp (generate_html summary topics) 0 [] of
        (evs, Inr sent) \<Rightarrow> (sent, evs)
      | (evs, Inl e) \<Rightarrow> (False, evs @ [Log (SendFailed (exn_message e))]))"

definition send_email :: "transport \<Rightarrow> string \<Rightarrow> topic list \<Rightarrow> bool" where
  "send_email smtp summary topics = fst (send_run smtp summary topics)"

section \<open>The orchestrator\<close>

text \<open>
  What \<^verbatim>\<open>main\<close> reads from its surroundings: the environment variables, whether
  \<^verbatim>\<open>int\<close> accepts the text of \<^verbatim>\<open>SMTP_PORT\<close>, whether the two audit files can be
  written, and the three external services.
\<close>

record environment =
  tianapi_key :: "string option"
  deepseek_api_key :: "string option"
  email_sender :: "string option"
  email_password :: "string option"
  email_recipient :: "string option"
  smtp_port_is_int :: bool
  raw_file_writable :: bool
  summary_file_writable :: bool
  ranking_provider :: http_result
  completion_provider :: completions
  mail_transport :: transport

text \<open>
  \<^verbatim>\<open>main\<close> returns \<^verbatim>\<open>True\<close> or \<^verbatim>\<open>False\<close> and logs, before each
  \<^verbatim>\<open>return False\<close>, which stage gave up. The result of a run is that verdict:
  delivered, or aborted at a stage.
\<close>

datatype stage = Precondition | Fetch | Summarize | Deliver | Unexpected

datatype pipeline_result = Delivered | Aborted stage

definition returns_true :: "pipeline_result \<Rightarrow> bool" where
  "returns_true r = (r = Delivered)"

definition exit_code :: "pipeline_result \<Rightarrow> nat" where
  "exit_code r = (if returns_true r then 0 else 1)"

text \<open>The \<^verbatim>\<open>try\<close> block of \<^verbatim>\<open>main\<close>.\<close>

definition main_try :: "environment \<Rightarrow> event list \<times> (exn + pipeline_result)" where
  "main_try env =
     (if \<not> smtp_port_is_int env then ([], Inl (Exn ValueError ''invalid literal for int()''))
      else if \<not> truthy (tianapi_key env)
      then ([Log (ConfigMissing ''TIANAPI_KEY'')], Inr (Aborted Precondition))
      else if \<not> truthy (deepseek_api_key env)
      then ([Log (ConfigMissing ''DEEPSEEK_API_KEY'')], Inr (Aborted Precondition))
      else if \<not> (truthy (email_sender env) \<and> truthy (email_password env)
                  \<and> truthy (email_recipient env))
      then ([Log (ConfigMissing ''EMAIL'')], Inr (Aborted Precondition))
      else
        (case fetch_run (ranking_provider env) 50 of (topics, evs1) \<Rightarrow>
           let evs1 = Constructed Fetcher # evs1 in
           if topics = [] then (evs1 @ [Log NoTopicData], Inr (Aborted Fetch))
           else if \<not> raw_file_writable env
           then (evs1, Inl (Exn OSError ''weibo_topics_raw.txt''))
           else
             (case weibo_run (completion_provider env) topics of (summary, evs2) \<Rightarrow>
                let evs2 = evs1 @ [FileWritten ''weibo_topics_raw.txt'', Constructed Summarizer]
                             @ evs2 in
                (case summary of
                   None \<Rightarrow> (evs2 @ [Log SummaryFailed], Inr (Aborted Summarize))
                 | Some text \<Rightarrow>
                     if text = [] then (evs2 @ [Log SummaryFailed], Inr (Aborted Summarize))
                     else if \<not> summary_file_writable env
                     then (evs2, Inl (Exn OSError ''weibo_summary.md''))
                     else
                       (case send_run (mail_transport env) text topics of (email_sent, evs3) \<Rightarrow>
                          let evs3 = evs2 @ [FileWritten ''weibo_summary.md'', Constructed Notifier]
                                       @ evs3 in
                          if email_sent then (evs3, Inr Delivered)
                          else (evs3 @ [Log EmailNotSent], Inr (Aborted Deliver)))))))"

text \<open>\<^verbatim>\<open>main\<close>: the handler of every exception logs it and returns \<^verbatim>\<open>False\<close>.\<close>

definition main_run :: "environment \<Rightarrow> pipeline_result \<times> event list" where
  "main_run env =
     (case main_try env of
        (evs, Inr r) \<Rightarrow> (r, evs)
      | (evs, Inl e) \<Rightarrow> (Aborted Unexpected, evs @ [Log (ProgramFailed (exn_message e))]))"

text \<open>Whether a run touched the Summarizer or the Notifier at all.\<close>

definition touches_later_stage :: "event \<Rightarrow> bool" where
  "touches_later_stage e =
     (case e of
        Constructed c \<Rightarrow> c = Summarizer \<or> c = Notifier
      | CompletionCall k p \<Rightarrow> True
      | SmtpSession k m \<Rightarrow> True
      | _ \<Rightarrow> False)"

section \<open>Sample inputs\<close>

text \<open>An envelope with the given status code, message and ranking.\<close>

definition ranking :: "int \<Rightarrow> string \<Rightarrow> topic list \<Rightarrow> http_result" where
  "ranking c m xs =
     Body \<lparr>code_field = Holds c, msg_field = Holds m,
           result_field = Holds \<lparr>list_field = Holds xs\<rparr>\<rparr>"

definition sample_topic :: "string \<Rightarrow> topic" where
  "sample_topic w =
     \<lparr>hottag = Some ''hot'', hotword = Some w, hotwordnum = Some (Coercible 12345 ''12345'')\<rparr>"

text \<open>
  A provider or transport given by the outcomes of its first calls, with one outcome for
  every later call.
\<close>

definition script :: "'a \<Rightarrow> 'a list \<Rightarrow> nat \<Rightarrow> 'a" where
  "script d xs k = (if k < length xs then xs ! k else d)"

definition answer :: "string \<Rightarrow> api_result" where
  "answer s =
     Returns (Some (Response (Some [\<lparr>choice_message_content = Some (Some s), choice_text = None\<rparr>])))"

text \<open>The ideographic space U+3000, in UTF-8.\<close>

definition wide_space :: string where
  "wide_space = [CHR 0xE3, CHR 0x80, CHR 0x80]"

definition no_choices :: api_result where
  "no_choices = Returns (Some (Response (Some [])))"

definition sample_env :: "http_result \<Rightarrow> completions \<Rightarrow> transport \<Rightarrow> environment" where
  "sample_env http api smtp =
     \<lparr>tianapi_key = Some ''k1'', deepseek_api_key = Some ''k2'', email_sender = Some ''a@x'',
      email_password = Some ''pw'', email_recipient = Some ''b@x'', smtp_port_is_int = True,
      raw_file_writable = True, summary_file_writable = True, ranking_provider = http,
      completion_provider = api, mail_transport = smtp\<rparr>"

section \<open>Properties of WeiboFetcher\<close>

lemma slice_to_within: "int (length xs) \<le> n \<Longrightarrow> slice_to xs n = xs"
  by (simp add: slice_to_def)

lemma slice_to_prefix: "prefix (slice_to xs n) xs"
  by (simp add: slice_to_def take_is_prefix)

lemma fetch_hot_topics_ok:
  "code_field d = Holds 200 \<Longrightarrow> result_field d = Holds r \<Longrightarrow> list_field r = Holds xs \<Longrightarrow>
   fetch_hot_topics (Body d) limit = slice_to xs limit"
  by (simp add: fetch_hot_topics_def fetch_run_def fetch_try_def)

text \<open>
  Claim C7. When the provider answers with status 200 and a topic list, a list no longer
  than the limit is returned unchanged; a longer list is cut to exactly its first
  \<open>limit\<close> entries (\<open>limit\<close> being a count, so not negative); and whatever the
  limit, the result is a prefix of the provider's list, so nothing is padded or reordered.
  With the default limit 50 the result has at most 50 entries.
\<close>

theorem fetch_truncates:
  assumes "code_field d = Holds 200" and "result_field d = Holds r" and "list_field r = Holds xs"
  shows "(int (length xs) \<le> limit \<longrightarrow> fetch_hot_topics (Body d) limit = xs) \<and>
   (0 \<le> limit \<and> limit < int (length xs) \<longrightarrow>
      fetch_hot_topics (Body d) limit = take (nat limit) xs \<and>
      int (length (fetch_hot_topics (Body d) limit)) = limit) \<and>
   prefix (fetch_hot_topics (Body d) limit) xs \<and>
   length (fetch_hot_topics (Body d) 50) = min 50 (length xs)"
proof -
  have "int (length xs) \<le> limit \<longrightarrow> slice_to xs limit = xs"
    by (simp add: slice_to_within)
  moreover have "0 \<le> limit \<and> limit < int (length xs) \<longrightarrow>
      slice_to xs limit = take (nat limit) xs \<and> int (length (slice_to xs limit)) = limit"
    by (auto simp: slice_to_def min_def)
  moreover have "prefix (slice_to xs limit) xs"
    by (rule slice_to_prefix)
  moreover have "length (slice_to xs 50) = min 50 (length xs)"
    by (simp add: slice_to_def)
  ultimately show ?thesis
    unfolding fetch_hot_topics_ok [OF assms] by blast
qed

theorem fetch_truncates_witness:
  "int (length [sample_topic ''a'', sample_topic ''b'']) \<le> 2 \<and>
   fetch_hot_topics (ranking 200 ''ok'' [sample_topic ''a'', sample_topic ''b'']) 2
     = [sample_topic ''a'', sample_topic ''b''] \<and>
   (2::int) < int (length [sample_topic ''a'', sample_topic ''b'', sample_topic ''c'']) \<and>
   fetch_hot_topics (ranking 200 ''ok'' [sample_topic ''a'', sample_topic ''b'', sample_topic ''c'']) 2
     = [sample_topic ''a'', sample_topic ''b'']"
proof -
  let ?two = "[sample_topic ''a'', sample_topic ''b'']"
  let ?three = "[sample_topic ''a'', sample_topic ''b'', sample_topic ''c'']"
  let ?d = "\<lambda>xs. \<lparr>code_field = Holds 200, msg_field = Holds ''ok'',
                  result_field = Holds \<lparr>list_field = Holds xs\<rparr>\<rparr>"
  have a: "code_field (?d xs) = Holds 200" "result_field (?d xs) = Holds \<lparr>list_field = Holds xs\<rparr>"
    "list_field \<lparr>list_field = Holds xs\<rparr> = Holds xs" for xs :: "topic list"
    by simp_all
  from fetch_truncates [OF a, of ?two 2] fetch_truncates [OF a, of ?three 2]
  show ?thesis by (simp add: ranking_def)
qed

text \<open>
  Claim C6, as amended. For an envelope whose status code is not 200, \<open>fetch_hot_topics\<close>
  returns the empty list after its single request, whatever the provider's message is; the
  message (or the default text when the envelope has none) goes to the error log only and
  is no part of the value the caller receives.
\<close>

theorem fetch_provider_error:
  "code_field d \<noteq> Holds 200 \<Longrightarrow>
   fetch_hot_topics (Body d) limit = [] \<and>
   fetch_run (Body d) limit = ([], [HttpGet, Log (ApiReturnedError (get_msg d))]) \<and>
   http_requests (snd (fetch_run (Body d) limit)) = 1"
  by (simp add: fetch_hot_topics_def fetch_run_def fetch_try_def http_requests_def)

theorem fetch_provider_error_witness:
  "fetch_hot_topics (ranking 500 ''quota exceeded'' [sample_topic ''a'']) 50 = [] \<and>
   fetch_run (ranking 500 ''quota exceeded'' [sample_topic ''a'']) 50
     = ([], [HttpGet, Log (ApiReturnedError ''quota exceeded'')])"
  using fetch_provider_error
    [of "\<lparr>code_field = Holds 500, msg_field = Holds ''quota exceeded'',
          result_field = Holds \<lparr>list_field = Holds [sample_topic ''a'']\<rparr>\<rparr>" 50]
  by (simp add: ranking_def get_msg_def)

text \<open>
  Two provider errors with different messages, and a successful answer with an empty
  ranking, all give the caller the same value: the message is not carried to the caller.
\<close>

theorem fetch_error_message_not_returned:
  "fetch_hot_topics (ranking 500 ''quota exceeded'' [sample_topic ''a'']) 50 = [] \<and>
   fetch_hot_topics (ranking 403 ''invalid key'' [sample_topic ''a'']) 50 = [] \<and>
   fetch_hot_topics (ranking 200 ''success'' []) 50 = []"
  by (simp add: fetch_hot_topics_def fetch_run_def fetch_try_def ranking_def slice_to_def)

section \<open>Properties of the retry loop of DeepSeekSummarizer\<close>

lemma call_indices_append: "call_indices (xs @ ys) = call_indices xs @ call_indices ys"
  by (simp add: call_indices_def)

lemma call_indices_Nil: "call_indices [] = []"
  by (simp add: call_indices_def)

lemma call_indices_Cons:
  "call_indices (e # es) = (case e of CompletionCall k p \<Rightarrow> [k] | _ \<Rightarrow> []) @ call_indices es"
  by (simp add: call_indices_def)

lemmas call_indices_simps = call_indices_append call_indices_Nil call_indices_Cons

lemma attempt_body_Inl: "attempt_body res = Inl m \<longleftrightarrow> res = Raises m"
  by (auto simp: attempt_body_def split: api_result.splits option.splits list.splits)

lemma attempt_body_Inr: "attempt_body res = Inr x \<Longrightarrow> \<exists>r. res = Returns r"
  by (cases res) (auto simp: attempt_body_def)

lemma loop_retry_step:
  assumes "attempt < max_retries cfg" and "outcome (api attempt) = RetryableFailure"
  shows "\<exists>evs'. summarize_loop cfg api p attempt (last_raised api attempt) evs
            = summarize_loop cfg api p (Suc attempt) (last_raised api (Suc attempt)) evs'
          \<and> call_indices evs' = call_indices evs @ [attempt]"
proof (cases "attempt_body (api attempt)")
  case (Inl m)
  then have r: "api attempt = Raises m" by (simp add: attempt_body_Inl)
  from assms(2) Inl have nc: "classify m \<noteq> ClientError"
    by (auto simp: outcome_def split: if_splits)
  show ?thesis
    using assms(1) Inl nc r
    apply (subst summarize_loop.simps)
    apply (cases "classify m"; simp)
      apply (rule exI, rule conjI, rule refl, simp add: call_indices_simps)
     apply (rule exI, rule conjI, rule refl, simp add: call_indices_simps)
    apply (intro conjI impI)
     apply (rule exI, rule conjI, rule refl, simp add: call_indices_simps)
    apply (rule exI, rule conjI, rule refl, simp add: call_indices_simps)
    done
next
  case (Inr x)
  then obtain r where r: "api attempt = Returns r" using attempt_body_Inr by blast
  from assms(2) Inr obtain line where l: "x = Inl line"
    by (cases x) (auto simp: outcome_def)
  show ?thesis
    using assms(1) Inr l r
    apply (subst summarize_loop.simps)
    apply simp
    apply (rule exI, rule conjI, rule refl, simp add: call_indices_simps)
    done
qed

lemma loop_prefix:
  "k \<le> max_retries cfg \<Longrightarrow> \<forall>j<k. outcome (api j) = RetryableFailure \<Longrightarrow>
   \<exists>evs'. summarize_loop cfg api p 0 None [] = summarize_loop cfg api p k (last_raised api k) evs'
        \<and> call_indices evs' = [0..<k]"
proof (induction k)
  case 0
  show ?case by (rule exI [of _ "[]"]) (simp add: call_indices_simps)
next
  case (Suc k)
  then obtain evs1 where
    e1: "summarize_loop cfg api p 0 None [] = summarize_loop cfg api p k (last_raised api k) evs1"
    and c1: "call_indices evs1 = [0..<k]"
    by auto
  from Suc.prems have "k < max_retries cfg" "outcome (api k) = RetryableFailure" by auto
  from loop_retry_step [of k cfg api p evs1, OF this] obtain evs2 where
    e2: "summarize_loop cfg api p k (last_raised api k) evs1
           = summarize_loop cfg api p (Suc k) (last_raised api (Suc k)) evs2"
    and c2: "call_indices evs2 = call_indices evs1 @ [k]"
    by blast
  show ?case
    using e1 e2 c1 c2 by (intro exI [of _ evs2]) simp
qed

lemma loop_exhausted:
  "summarize_loop cfg api p (max_retries cfg) le evs
     = (None, le, evs @ [Log (RetriesExhausted (max_retries cfg) le)])"
  by (subst summarize_loop.simps) simp

lemma loop_success:
  "k < max_retries cfg \<Longrightarrow> outcome (api k) = Success s \<Longrightarrow>
   summarize_loop cfg api p k le evs = (Some s, le, evs @ [CompletionCall k p])"
  by (subst summarize_loop.simps)
     (auto simp: outcome_def split: sum.splits if_splits)

lemma loop_fatal:
  "k < max_retries cfg \<Longrightarrow> outcome (api k) = FatalFailure m \<Longrightarrow>
   summarize_loop cfg api p k le evs
     = (None, Some m, evs @ [CompletionCall k p, Log (AttemptFailed (k + 1) m),
                             Log (RequestErrorNoRetry m)])"
  by (subst summarize_loop.simps)
     (auto simp: outcome_def split: sum.splits if_splits)

lemma outcome_Success_iff:
  "outcome res = Success s \<longleftrightarrow>
     (\<exists>t. completion_text res = Some t \<and> strip t \<noteq> [] \<and> s = strip t)"
proof (cases res)
  case (Raises m)
  then show ?thesis by (simp add: outcome_def attempt_body_def completion_text_def)
next
  case (Returns ro)
  show ?thesis
  proof (cases ro)
    case None
    with Returns show ?thesis by (simp add: outcome_def attempt_body_def completion_text_def)
  next
    case (Some r)
    obtain chs where r: "r = Response chs" by (cases r)
    show ?thesis
    proof (cases chs)
      case None
      with Returns Some r show ?thesis
        by (simp add: outcome_def attempt_body_def completion_text_def)
    next
      case ch: (Some l)
      show ?thesis
      proof (cases l)
        case Nil
        with Returns Some r ch show ?thesis
          by (simp add: outcome_def attempt_body_def completion_text_def)
      next
        case (Cons c cs)
        have strip_Nil: "strip [] = []" by code_simp
        from Returns Some r ch Cons show ?thesis
          by (auto simp: outcome_def attempt_body_def completion_text_def strip_Nil
              split: option.splits)
      qed
    qed
  qed
qed

lemma first_decisive:
  fixes n :: nat
  shows "(\<forall>j<n. outcome (api j) = RetryableFailure) \<or>
   (\<exists>k<n. (\<forall>j<k. outcome (api j) = RetryableFailure) \<and> outcome (api k) \<noteq> RetryableFailure)"
proof (cases "\<forall>j<n. outcome (api j) = RetryableFailure")
  case True
  then show ?thesis by simp
next
  case False
  define k where "k = (LEAST j. j < n \<and> outcome (api j) \<noteq> RetryableFailure)"
  from False have ex: "\<exists>j. j < n \<and> outcome (api j) \<noteq> RetryableFailure" by blast
  have kP: "k < n \<and> outcome (api k) \<noteq> RetryableFailure"
    unfolding k_def
    using LeastI_ex [of "\<lambda>j. j < n \<and> outcome (api j) \<noteq> RetryableFailure", OF ex] by simp
  have "\<forall>j<k. outcome (api j) = RetryableFailure"
  proof (intro allI impI)
    fix j assume "j < k"
    then have "\<not> (j < n \<and> outcome (api j) \<noteq> RetryableFailure)"
      unfolding k_def
      using not_less_Least [of j "\<lambda>j. j < n \<and> outcome (api j) \<noteq> RetryableFailure"] by blast
    moreover from \<open>j < k\<close> kP have "j < n" by simp
    ultimately show "outcome (api j) = RetryableFailure" by blast
  qed
  with kP show ?thesis by blast
qed

lemma run_exhausted:
  assumes "\<forall>j<max_retries cfg. outcome (api j) = RetryableFailure"
  shows "\<exists>evs'. summarize_loop cfg api p 0 None []
           = (None, last_raised api (max_retries cfg),
              evs' @ [Log (RetriesExhausted (max_retries cfg) (last_raised api (max_retries cfg)))])
         \<and> call_indices evs' = [0..<max_retries cfg]"
proof -
  from loop_prefix [of "max_retries cfg" cfg api p] assms obtain evs' where
    "summarize_loop cfg api p 0 None []
       = summarize_loop cfg api p (max_retries cfg) (last_raised api (max_retries cfg)) evs'"
    and "call_indices evs' = [0..<max_retries cfg]"
    by auto
  then show ?thesis by (auto simp: loop_exhausted)
qed

lemma run_success:
  assumes "k < max_retries cfg" and "\<forall>j<k. outcome (api j) = RetryableFailure"
    and "outcome (api k) = Success s"
  shows "\<exists>evs'. summarize_loop cfg api p 0 None []
           = (Some s, last_raised api k, evs' @ [CompletionCall k p])
         \<and> call_indices evs' = [0..<k]"
proof -
  from loop_prefix [of k cfg api p] assms(1,2) obtain evs' where
    "summarize_loop cfg api p 0 None [] = summarize_loop cfg api p k (last_raised api k) evs'"
    and "call_indices evs' = [0..<k]"
    by auto
  then show ?thesis using assms(1,3) by (auto simp: loop_success)
qed

lemma run_fatal:
  assumes "k < max_retries cfg" and "\<forall>j<k. outcome (api j) = RetryableFailure"
    and "outcome (api k) = FatalFailure m"
  shows "\<exists>evs'. summarize_loop cfg api p 0 None []
           = (None, Some m, evs' @ [CompletionCall k p, Log (AttemptFailed (k + 1) m),
                                    Log (RequestErrorNoRetry m)])
         \<and> call_indices evs' = [0..<k]"
proof -
  from loop_prefix [of k cfg api p] assms(1,2) obtain evs' where
    "summarize_loop cfg api p 0 None [] = summarize_loop cfg api p k (last_raised api k) evs'"
    and "call_indices evs' = [0..<k]"
    by auto
  then show ?thesis using assms(1,3) by (auto simp: loop_fatal)
qed

lemma outcome_client_error:
  "classify m = ClientError \<Longrightarrow> outcome (Raises m) = FatalFailure m"
  by (simp add: outcome_def attempt_body_def)

lemma run_calls_bounded:
  "summarize_loop cfg api p 0 None [] = (r, le, evs) \<Longrightarrow>
   length (call_indices evs) \<le> max_retries cfg"
proof -
  assume run: "summarize_loop cfg api p 0 None [] = (r, le, evs)"
  from first_decisive [of "max_retries cfg" api] show ?thesis
  proof
    assume "\<forall>j<max_retries cfg. outcome (api j) = RetryableFailure"
    from run_exhausted [OF this, of p] run show ?thesis
      by (auto simp: call_indices_simps)
  next
    assume "\<exists>k<max_retries cfg. (\<forall>j<k. outcome (api j) = RetryableFailure)
               \<and> outcome (api k) \<noteq> RetryableFailure"
    then obtain k where k: "k < max_retries cfg" "\<forall>j<k. outcome (api j) = RetryableFailure"
      "outcome (api k) \<noteq> RetryableFailure" by blast
    show ?thesis
    proof (cases "outcome (api k)")
      case (Success s)
      from run_success [OF k(1,2) this, of p] run k(1) show ?thesis
        by (auto simp: call_indices_simps)
    next
      case (FatalFailure m)
      from run_fatal [OF k(1,2) this, of p] run k(1) show ?thesis
        by (auto simp: call_indices_simps)
    next
      case RetryableFailure
      with k(3) show ?thesis by simp
    qed
  qed
qed

lemma run_some:
  assumes run: "summarize_loop cfg api p 0 None [] = (Some s, le, evs)"
  shows "\<exists>k<max_retries cfg. outcome (api k) = Success s \<and> call_indices evs = [0..<Suc k]"
proof -
  from first_decisive [of "max_retries cfg" api] show ?thesis
  proof
    assume "\<forall>j<max_retries cfg. outcome (api j) = RetryableFailure"
    from run_exhausted [OF this, of p] run show ?thesis by auto
  next
    assume "\<exists>k<max_retries cfg. (\<forall>j<k. outcome (api j) = RetryableFailure)
               \<and> outcome (api k) \<noteq> RetryableFailure"
    then obtain k where k: "k < max_retries cfg" "\<forall>j<k. outcome (api j) = RetryableFailure"
      "outcome (api k) \<noteq> RetryableFailure" by blast
    show ?thesis
    proof (cases "outcome (api k)")
      case (Success s')
      from run_success [OF k(1,2) this, of p] run k(1) Success show ?thesis
        by (auto simp: call_indices_simps intro!: exI [of _ k])
    next
      case (FatalFailure m)
      from run_fatal [OF k(1,2) this, of p] run show ?thesis by auto
    next
      case RetryableFailure
      with k(3) show ?thesis by simp
    qed
  qed
qed

lemma deepseek_run_loop:
  "content \<noteq> [] \<Longrightarrow> strip content \<noteq> [] \<Longrightarrow>
   deepseek_run cfg api content context
     = summarize_loop cfg api (RedditPrompt content context) 0 None []"
  by (simp add: deepseek_run_def)

lemma weibo_calls: "call_indices (snd (weibo_run api topics)) = [0]"
  by (simp add: weibo_run_def call_indices_simps split: sum.splits)

text \<open>
  Claim C1, as amended. For content that \<open>DeepSeekSummarizer.summarize\<close> accepts, at most
  \<open>max_retries\<close> (3 by default) completion calls are made. A returned summary is the
  stripped text of the first message of the call that succeeded, and that call is the last
  one made; conversely, when the first attempt that is not a retryable failure has a text
  that is not blank, the result is that text stripped. If no attempt succeeds the result is
  \<open>None\<close>. When every attempt ends in a
  retryable failure, all \<open>max_retries\<close> calls are made and the error named in the final log
  line is the message of the last call that raised an exception (none if no call raised): an
  attempt that fails without an exception (no response, no choices, no text or blank text)
  leaves it unchanged. \<open>WeiboSummarizer.summarize\<close> makes exactly one call and returns the
  stripped text of its first choice, or \<open>None\<close> when anything in that attempt raises.
\<close>

theorem summarize_attempts_and_result:
  assumes "content \<noteq> []" and "strip content \<noteq> []"
    and run: "deepseek_run cfg api content context = (r, le, evs)"
  shows "length (call_indices evs) \<le> max_retries cfg
    \<and> max_retries default_config = 3
    \<and> (\<forall>k t. k < max_retries cfg \<and> (\<forall>j<k. outcome (api j) = RetryableFailure)
            \<and> completion_text (api k) = Some t \<and> strip t \<noteq> [] \<longrightarrow>
          r = Some (strip t) \<and> call_indices evs = [0..<Suc k])
    \<and> (\<forall>s. r = Some s \<longrightarrow>
          (\<exists>k<max_retries cfg. \<exists>t. completion_text (api k) = Some t \<and> s = strip t
              \<and> call_indices evs = [0..<Suc k]))
    \<and> ((\<forall>k<max_retries cfg. \<forall>s. outcome (api k) \<noteq> Success s) \<longrightarrow> r = None)
    \<and> ((\<forall>k<max_retries cfg. outcome (api k) = RetryableFailure) \<longrightarrow>
          r = None \<and> call_indices evs = [0..<max_retries cfg]
          \<and> le = last_raised api (max_retries cfg)
          \<and> last evs = Log (RetriesExhausted (max_retries cfg) (last_raised api (max_retries cfg))))
    \<and> call_indices (snd (weibo_run api topics)) = [0]
    \<and> (\<forall>c cs t. api 0 = Returns (Some (Response (Some (c # cs))))
            \<and> choice_message_content c = Some (Some t) \<longrightarrow>
          weibo_summarize api topics = Some (strip t))
    \<and> ((\<forall>c cs t. api 0 = Returns (Some (Response (Some (c # cs)))) \<longrightarrow>
            choice_message_content c \<noteq> Some (Some t)) \<longrightarrow>
          weibo_summarize api topics = None)"
proof -
  let ?p = "RedditPrompt content context"
  from assms have loop: "summarize_loop cfg api ?p 0 None [] = (r, le, evs)"
    by (simp add: deepseek_run_loop)
  have a: "length (call_indices evs) \<le> max_retries cfg"
    using loop by (rule run_calls_bounded)
  have b: "max_retries default_config = 3"
    by (simp add: default_config_def)
  have s: "\<forall>k t. k < max_retries cfg \<and> (\<forall>j<k. outcome (api j) = RetryableFailure)
            \<and> completion_text (api k) = Some t \<and> strip t \<noteq> [] \<longrightarrow>
          r = Some (strip t) \<and> call_indices evs = [0..<Suc k]"
  proof (intro allI impI)
    fix k t
    assume h: "k < max_retries cfg \<and> (\<forall>j<k. outcome (api j) = RetryableFailure)
            \<and> completion_text (api k) = Some t \<and> strip t \<noteq> []"
    then have k: "k < max_retries cfg" and pre: "\<forall>j<k. outcome (api j) = RetryableFailure"
      and ok: "outcome (api k) = Success (strip t)"
      by (auto simp: outcome_Success_iff)
    from run_success [OF k pre ok, of ?p] loop
    show "r = Some (strip t) \<and> call_indices evs = [0..<Suc k]"
      by (auto simp: call_indices_simps)
  qed
  have c: "\<forall>s. r = Some s \<longrightarrow>
          (\<exists>k<max_retries cfg. \<exists>t. completion_text (api k) = Some t \<and> s = strip t
              \<and> call_indices evs = [0..<Suc k])"
  proof (intro allI impI)
    fix s assume "r = Some s"
    with loop have "summarize_loop cfg api ?p 0 None [] = (Some s, le, evs)" by simp
    from run_some [OF this] obtain k where
      "k < max_retries cfg" "outcome (api k) = Success s" "call_indices evs = [0..<Suc k]"
      by blast
    then show "\<exists>k<max_retries cfg. \<exists>t. completion_text (api k) = Some t \<and> s = strip t
              \<and> call_indices evs = [0..<Suc k]"
      by (auto simp: outcome_Success_iff)
  qed
  have d: "(\<forall>k<max_retries cfg. \<forall>s. outcome (api k) \<noteq> Success s) \<longrightarrow> r = None"
  proof
    assume ns: "\<forall>k<max_retries cfg. \<forall>s. outcome (api k) \<noteq> Success s"
    show "r = None"
    proof (cases r)
      case None then show ?thesis .
    next
      case (Some s)
      with loop have "summarize_loop cfg api ?p 0 None [] = (Some s, le, evs)" by simp
      from run_some [OF this] ns show ?thesis by blast
    qed
  qed
  have e: "(\<forall>k<max_retries cfg. outcome (api k) = RetryableFailure) \<longrightarrow>
          r = None \<and> call_indices evs = [0..<max_retries cfg]
          \<and> le = last_raised api (max_retries cfg)
          \<and> last evs = Log (RetriesExhausted (max_retries cfg) (last_raised api (max_retries cfg)))"
  proof
    assume "\<forall>k<max_retries cfg. outcome (api k) = RetryableFailure"
    from run_exhausted [OF this, of ?p] loop
    show "r = None \<and> call_indices evs = [0..<max_retries cfg]
          \<and> le = last_raised api (max_retries cfg)
          \<and> last evs = Log (RetriesExhausted (max_retries cfg) (last_raised api (max_retries cfg)))"
      by (auto simp: call_indices_simps)
  qed
  have f: "call_indices (snd (weibo_run api topics)) = [0]"
    by (rule weibo_calls)
  have g: "\<forall>c cs t. api 0 = Returns (Some (Response (Some (c # cs))))
            \<and> choice_message_content c = Some (Some t) \<longrightarrow>
          weibo_summarize api topics = Some (strip t)"
    by (simp add: weibo_summarize_def weibo_run_def weibo_try_def)
  have h: "(\<forall>c cs t. api 0 = Returns (Some (Response (Some (c # cs)))) \<longrightarrow>
            choice_message_content c \<noteq> Some (Some t)) \<longrightarrow>
          weibo_summarize api topics = None"
  proof
    assume no: "\<forall>c cs t. api 0 = Returns (Some (Response (Some (c # cs)))) \<longrightarrow>
            choice_message_content c \<noteq> Some (Some t)"
    have "\<exists>e. weibo_try (api 0) = Inl e"
    proof (cases "weibo_try (api 0)")
      case (Inl e)
      then show ?thesis by blast
    next
      case (Inr x)
      then obtain c cs t where "api 0 = Returns (Some (Response (Some (c # cs))))"
        "choice_message_content c = Some (Some t)"
        by (auto simp: weibo_try_def split: api_result.splits option.splits list.splits)
           (metis response.collapse)
      with no show ?thesis by blast
    qed
    then show "weibo_summarize api topics = None"
      by (auto simp: weibo_summarize_def weibo_run_def)
  qed
  from a b s c d e f g h show ?thesis by blast
qed

theorem summarize_attempts_and_result_witness:
  "deepseek_run default_config (script no_choices [no_choices, answer (wide_space @ ''hello '')])
       ''news'' ''''
     = (Some ''hello'', None,
        [CompletionCall 0 (RedditPrompt ''news'' ''''), Log NoChoices,
         CompletionCall 1 (RedditPrompt ''news'' '''')])
   \<and> outcome (script no_choices [Raises ''503 Service Unavailable''] 0) = RetryableFailure
   \<and> outcome (script no_choices [Raises ''503 Service Unavailable''] 1) = RetryableFailure
   \<and> outcome (script no_choices [Raises ''503 Service Unavailable''] 2) = RetryableFailure
   \<and> deepseek_summarize default_config (script no_choices [Raises ''503 Service Unavailable''])
        ''news'' '''' = None
   \<and> fst (snd (deepseek_run default_config (script no_choices [Raises ''503 Service Unavailable''])
        ''news'' '''')) = Some ''503 Service Unavailable''
   \<and> weibo_summarize (script no_choices [answer (wide_space @ ''hello '')]) [] = Some ''hello''
   \<and> weibo_summarize (script no_choices [Raises ''503 Service Unavailable'']) [] = None"
proof -
  let ?t = "wide_space @ ''hello ''"
  let ?api = "script no_choices [no_choices, answer ?t]"
  let ?evs = "[CompletionCall 0 (RedditPrompt ''news'' ''''), Log NoChoices,
         CompletionCall 1 (RedditPrompt ''news'' '''')]"
  let ?api2 = "script no_choices [Raises ''503 Service Unavailable'']"
  let ?api3 = "script no_choices [answer ?t]"
  have h1: "''news'' \<noteq> []" by simp
  have h2: "strip ''news'' \<noteq> []" by code_simp
  have m: "max_retries default_config = 3" by (simp add: default_config_def)
  have st: "strip ?t = ''hello''" by code_simp
  have ob: "outcome no_choices = RetryableFailure" by code_simp
  have p1: "\<forall>j<1. outcome (?api j) = RetryableFailure"
    by (simp add: script_def ob)
  have t1: "completion_text (?api 1) = Some ?t"
    by (simp add: script_def answer_def completion_text_def)
  obtain r1 le1 evs1 where run1: "deepseek_run default_config ?api ''news'' '''' = (r1, le1, evs1)"
    by (cases "deepseek_run default_config ?api ''news'' ''''") auto
  have "1 < max_retries default_config \<and> (\<forall>j<1. outcome (?api j) = RetryableFailure)
      \<and> completion_text (?api 1) = Some ?t \<and> strip ?t \<noteq> []"
    using m p1 t1 st by simp
  with summarize_attempts_and_result [OF h1 h2 run1, of "[]"]
  have a: "r1 = Some (strip ?t)"
    by blast
  have h3: "deepseek_run default_config ?api ''news'' '''' = (Some ''hello'', None, ?evs)"
    by code_simp
  have oa: "outcome (Raises ''503 Service Unavailable'') = RetryableFailure" by code_simp
  have h4: "\<forall>k<max_retries default_config. outcome (?api2 k) = RetryableFailure"
    by (simp add: script_def oa ob)
  have l: "last_raised ?api2 3 = Some ''503 Service Unavailable''" by code_simp
  obtain r le evs where run2: "deepseek_run default_config ?api2 ''news'' '''' = (r, le, evs)"
    by (cases "deepseek_run default_config ?api2 ''news'' ''''") auto
  from summarize_attempts_and_result [OF h1 h2 run2, of "[]"] h4 m l
  have b: "r = None \<and> le = Some ''503 Service Unavailable''"
    by auto
  from h4 m have o: "outcome (?api2 0) = RetryableFailure" "outcome (?api2 1) = RetryableFailure"
    "outcome (?api2 2) = RetryableFailure"
    by simp_all
  have w0: "?api3 0 = Returns (Some (Response (Some
      [\<lparr>choice_message_content = Some (Some ?t), choice_text = None\<rparr>])))
      \<and> choice_message_content \<lparr>choice_message_content = Some (Some ?t), choice_text = None\<rparr>
          = Some (Some ?t)"
    by (simp add: script_def answer_def)
  obtain r3 le3 evs3 where run3: "deepseek_run default_config ?api3 ''news'' '''' = (r3, le3, evs3)"
    by (cases "deepseek_run default_config ?api3 ''news'' ''''") auto
  from summarize_attempts_and_result [OF h1 h2 run3, of "[]"] w0
  have "weibo_summarize ?api3 [] = Some (strip ?t)"
    by blast
  with st have w: "weibo_summarize ?api3 [] = Some ''hello''"
    by simp
  have w2: "weibo_summarize ?api2 [] = None"
    by code_simp
  from h3 o b run2 w w2 show ?thesis
    by (simp add: deepseek_summarize_def)
qed

text \<open>
  Two exhausted runs. In the first the last two attempts fail with no choices, and the
  final log line names the timeout of the first attempt; in the second no attempt raises
  and the final log line names no error at all.
\<close>

theorem exhausted_run_reports_stale_error:
  "deepseek_run default_config (script no_choices [Raises ''Connection timed out'']) ''news'' ''''
     = (None, Some ''Connection timed out'',
        [CompletionCall 0 (RedditPrompt ''news'' ''''),
         Log (AttemptFailed 1 ''Connection timed out''), Sleep 2,
         CompletionCall 1 (RedditPrompt ''news'' ''''), Log NoChoices,
         CompletionCall 2 (RedditPrompt ''news'' ''''), Log NoChoices,
         Log (RetriesExhausted 3 (Some ''Connection timed out''))])
   \<and> deepseek_run default_config (script no_choices []) ''news'' ''''
     = (None, None,
        [CompletionCall 0 (RedditPrompt ''news'' ''''), Log NoChoices,
         CompletionCall 1 (RedditPrompt ''news'' ''''), Log NoChoices,
         CompletionCall 2 (RedditPrompt ''news'' ''''), Log NoChoices,
         Log (RetriesExhausted 3 None)])"
  by code_simp

text \<open>
  Claim C2. When the loop reaches an attempt whose exception the handler classifies as a
  client error (it contains 400, 401, 403 or 404 and none of the rate-limit or server-error
  indicators tested before), \<open>summarize\<close> returns \<open>None\<close> at once: the call of that attempt
  is the last one, no wait follows it, and \<open>last_error\<close> is its message. If that attempt is
  the first one, exactly one call is made.
\<close>

theorem client_error_stops_retrying:
  assumes "content \<noteq> []" and "strip content \<noteq> []"
    and "k < max_retries cfg" and "\<forall>j<k. outcome (api j) = RetryableFailure"
    and "api k = Raises m" and "classify m = ClientError"
  shows "deepseek_summarize cfg api content context = None
    \<and> (\<exists>evs'. deepseek_run cfg api content context
          = (None, Some m,
             evs' @ [CompletionCall k (RedditPrompt content context),
                     Log (AttemptFailed (k + 1) m), Log (RequestErrorNoRetry m)])
          \<and> call_indices evs' = [0..<k])
    \<and> call_indices (snd (snd (deepseek_run cfg api content context))) = [0..<Suc k]
    \<and> (k = 0 \<longrightarrow> call_indices (snd (snd (deepseek_run cfg api content context))) = [0])"
proof -
  let ?p = "RedditPrompt content context"
  from assms(5,6) have "outcome (api k) = FatalFailure m"
    by (simp add: outcome_client_error)
  from run_fatal [OF assms(3,4) this, of ?p] obtain evs' where
    run: "summarize_loop cfg api ?p 0 None []
       = (None, Some m, evs' @ [CompletionCall k ?p, Log (AttemptFailed (k + 1) m),
                                Log (RequestErrorNoRetry m)])"
    and ci: "call_indices evs' = [0..<k]"
    by blast
  from assms(1,2) have eq: "deepseek_run cfg api content context
     = summarize_loop cfg api ?p 0 None []"
    by (rule deepseek_run_loop)
  have 1: "deepseek_summarize cfg api content context = None"
    by (simp add: deepseek_summarize_def eq run)
  have 2: "\<exists>evs'. deepseek_run cfg api content context
          = (None, Some m,
             evs' @ [CompletionCall k ?p,
                     Log (AttemptFailed (k + 1) m), Log (RequestErrorNoRetry m)])
          \<and> call_indices evs' = [0..<k]"
    using run ci eq by auto
  have 3: "call_indices (snd (snd (deepseek_run cfg api content context))) = [0..<Suc k]"
    by (simp add: eq run ci call_indices_simps)
  from 1 2 3 show ?thesis by simp
qed

theorem client_error_stops_retrying_witness:
  "deepseek_summarize default_config
      (script (answer ''late'') [Raises ''Error code: 401 - Unauthorized'']) ''news'' '''' = None
   \<and> call_indices (snd (snd (deepseek_run default_config
      (script (answer ''late'') [Raises ''Error code: 401 - Unauthorized'']) ''news'' ''''))) = [0]
   \<and> outcome (script (answer ''late'') [Raises ''Error code: 429 - rate limit'',
        Raises ''Error code: 403 - Forbidden''] 0) = RetryableFailure
   \<and> call_indices (snd (snd (deepseek_run default_config
      (script (answer ''late'') [Raises ''Error code: 429 - rate limit'',
        Raises ''Error code: 403 - Forbidden'']) ''news'' ''''))) = [0, 1]"
proof -
  let ?a1 = "script (answer ''late'') [Raises ''Error code: 401 - Unauthorized'']"
  let ?a2 = "script (answer ''late'') [Raises ''Error code: 429 - rate limit'',
        Raises ''Error code: 403 - Forbidden'']"
  have h1: "''news'' \<noteq> []" by simp
  have h2: "strip ''news'' \<noteq> []" by code_simp
  have k0: "0 < max_retries default_config" and k1: "1 < max_retries default_config"
    by (simp_all add: default_config_def)
  have p0: "\<forall>j<0. outcome (?a1 j) = RetryableFailure" by simp
  have r0: "?a1 0 = Raises ''Error code: 401 - Unauthorized''" by (simp add: script_def)
  have c0: "classify ''Error code: 401 - Unauthorized'' = ClientError" by code_simp
  have o: "outcome (?a2 0) = RetryableFailure" by code_simp
  then have p1: "\<forall>j<1. outcome (?a2 j) = RetryableFailure" by simp
  have r1: "?a2 1 = Raises ''Error code: 403 - Forbidden''" by (simp add: script_def)
  have c1: "classify ''Error code: 403 - Forbidden'' = ClientError" by code_simp
  have u: "[0..<Suc 1] = [0, 1]" by (simp add: upt_rec)
  from client_error_stops_retrying [OF h1 h2 k0 p0 r0 c0, of "''''"]
    client_error_stops_retrying [OF h1 h2 k1 p1 r1 c1, of "''''"] o u
  show ?thesis by simp
qed

text \<open>
  The waits of the handler: an exception classified as a rate limit is followed by
  \<open>quota_wait\<close>, a server error by \<open>retry_wait\<close>, and any other retried error by
  \<open>retry_wait\<close> when a further attempt remains.
\<close>

lemma handler_waits:
  assumes "attempt < max_retries cfg" and "api attempt = Raises m"
  shows "classify m = RateLimit \<Longrightarrow>
           summarize_loop cfg api p attempt le evs
             = summarize_loop cfg api p (Suc attempt) (Some m)
                 (evs @ [CompletionCall attempt p, Log (AttemptFailed (attempt + 1) m),
                         Sleep (quota_wait cfg attempt)])"
    and "classify m = ServerError \<Longrightarrow>
           summarize_loop cfg api p attempt le evs
             = summarize_loop cfg api p (Suc attempt) (Some m)
                 (evs @ [CompletionCall attempt p, Log (AttemptFailed (attempt + 1) m),
                         Sleep (retry_wait cfg attempt)])"
    and "classify m = NetworkError \<Longrightarrow> attempt < max_retries cfg - 1 \<Longrightarrow>
           summarize_loop cfg api p attempt le evs
             = summarize_loop cfg api p (Suc attempt) (Some m)
                 (evs @ [CompletionCall attempt p, Log (AttemptFailed (attempt + 1) m),
                         Sleep (retry_wait cfg attempt)])"
  using assms by (subst summarize_loop.simps, simp add: attempt_body_def)+

text \<open>
  Claim C4. In the retry loop, with a base delay of at least 1: after an exception
  classified as a rate limit at attempt \<open>i\<close> the loop waits
  \<open>retry_delay * (i + 1) * 2\<close> before attempt \<open>i + 1\<close>, and likewise at a later attempt
  \<open>j\<close>; after an unclassified exception at attempt \<open>i\<close> it waits \<open>retry_delay * (i + 1)\<close>.
  The rate-limit wait at \<open>i\<close> is strictly shorter than the one at \<open>j\<close> and strictly longer
  than the wait after the unclassified exception at the same attempt.
\<close>

theorem quota_backoff_grows:
  assumes "1 \<le> retry_delay cfg" and "i < j" and "j < max_retries cfg"
    and "classify m = RateLimit" and "classify m' = NetworkError"
    and "limited i = Raises m" and "limited j = Raises m" and "failing i = Raises m'"
  shows "summarize_loop cfg limited p i le evs
       = summarize_loop cfg limited p (Suc i) (Some m)
           (evs @ [CompletionCall i p, Log (AttemptFailed (i + 1) m),
                   Sleep (retry_delay cfg * (i + 1) * 2)])
     \<and> summarize_loop cfg limited p j le evs
       = summarize_loop cfg limited p (Suc j) (Some m)
           (evs @ [CompletionCall j p, Log (AttemptFailed (j + 1) m),
                   Sleep (retry_delay cfg * (j + 1) * 2)])
     \<and> summarize_loop cfg failing p i le evs
       = summarize_loop cfg failing p (Suc i) (Some m')
           (evs @ [CompletionCall i p, Log (AttemptFailed (i + 1) m'),
                   Sleep (retry_delay cfg * (i + 1))])
     \<and> retry_delay cfg * (i + 1) * 2 < retry_delay cfg * (j + 1) * 2
     \<and> retry_delay cfg * (i + 1) < retry_delay cfg * (i + 1) * 2"
proof -
  from assms(2,3) have i: "i < max_retries cfg" and rest: "i < max_retries cfg - 1"
    by simp_all
  have a: "summarize_loop cfg limited p i le evs
       = summarize_loop cfg limited p (Suc i) (Some m)
           (evs @ [CompletionCall i p, Log (AttemptFailed (i + 1) m),
                   Sleep (retry_delay cfg * (i + 1) * 2)])"
    using handler_waits(1) [where api = limited and attempt = i and m = m, OF i assms(6) assms(4)]
    by (simp add: quota_wait_def)
  have b: "summarize_loop cfg limited p j le evs
       = summarize_loop cfg limited p (Suc j) (Some m)
           (evs @ [CompletionCall j p, Log (AttemptFailed (j + 1) m),
                   Sleep (retry_delay cfg * (j + 1) * 2)])"
    using handler_waits(1) [where api = limited and attempt = j and m = m, OF assms(3) assms(7) assms(4)]
    by (simp add: quota_wait_def)
  have c: "summarize_loop cfg failing p i le evs
       = summarize_loop cfg failing p (Suc i) (Some m')
           (evs @ [CompletionCall i p, Log (AttemptFailed (i + 1) m'),
                   Sleep (retry_delay cfg * (i + 1))])"
    using handler_waits(3) [where api = failing and attempt = i and m = m', OF i assms(8) assms(5) rest]
    by (simp add: retry_wait_def)
  have d: "retry_delay cfg * (i + 1) * 2 < retry_delay cfg * (j + 1) * 2"
    using assms(1,2) by simp
  have e: "retry_delay cfg * (i + 1) < retry_delay cfg * (i + 1) * 2"
    using assms(1) by simp
  from a b c d e show ?thesis by blast
qed

theorem quota_backoff_grows_witness:
  "classify ''Error code: 429 - rate limit reached'' = RateLimit
   \<and> classify ''Connection timed out'' = NetworkError
   \<and> deepseek_run default_config (script no_choices
        [Raises ''Error code: 429 - rate limit reached'',
         Raises ''Error code: 429 - rate limit reached'']) ''news'' ''''
     = (None, Some ''Error code: 429 - rate limit reached'',
        [CompletionCall 0 (RedditPrompt ''news'' ''''),
         Log (AttemptFailed 1 ''Error code: 429 - rate limit reached''), Sleep 4,
         CompletionCall 1 (RedditPrompt ''news'' ''''),
         Log (AttemptFailed 2 ''Error code: 429 - rate limit reached''), Sleep 8,
         CompletionCall 2 (RedditPrompt ''news'' ''''), Log NoChoices,
         Log (RetriesExhausted 3 (Some ''Error code: 429 - rate limit reached''))])
   \<and> deepseek_run default_config (script no_choices [Raises ''Connection timed out'']) ''news'' ''''
     = (None, Some ''Connection timed out'',
        [CompletionCall 0 (RedditPrompt ''news'' ''''),
         Log (AttemptFailed 1 ''Connection timed out''), Sleep 2,
         CompletionCall 1 (RedditPrompt ''news'' ''''), Log NoChoices,
         CompletionCall 2 (RedditPrompt ''news'' ''''), Log NoChoices,
         Log (RetriesExhausted 3 (Some ''Connection timed out''))])
   \<and> (4::nat) < 8 \<and> (2::nat) < 4"
proof -
  let ?m = "''Error code: 429 - rate limit reached''"
  let ?m' = "''Connection timed out''"
  let ?limited = "script no_choices [Raises ?m, Raises ?m]"
  let ?failing = "script no_choices [Raises ?m']"
  let ?p = "RedditPrompt ''news'' ''''"
  have d: "1 \<le> retry_delay default_config" and ij: "(0::nat) < 1"
    and j: "1 < max_retries default_config"
    by (simp_all add: default_config_def)
  have c1: "classify ?m = RateLimit" by code_simp
  have c2: "classify ?m' = NetworkError" by code_simp
  have l0: "?limited 0 = Raises ?m" and l1: "?limited 1 = Raises ?m"
    and f0: "?failing 0 = Raises ?m'"
    by (simp_all add: script_def)
  have r1: "summarize_loop default_config ?limited ?p 1 (Some ?m)
        [CompletionCall 0 ?p, Log (AttemptFailed 1 ?m), Sleep 4]
     = (None, Some ?m,
        [CompletionCall 0 ?p, Log (AttemptFailed 1 ?m), Sleep 4,
         CompletionCall 1 ?p, Log (AttemptFailed 2 ?m), Sleep 8,
         CompletionCall 2 ?p, Log NoChoices, Log (RetriesExhausted 3 (Some ?m))])"
    by code_simp
  have r2: "summarize_loop default_config ?failing ?p 1 (Some ?m')
        [CompletionCall 0 ?p, Log (AttemptFailed 1 ?m'), Sleep 2]
     = (None, Some ?m',
        [CompletionCall 0 ?p, Log (AttemptFailed 1 ?m'), Sleep 2,
         CompletionCall 1 ?p, Log NoChoices, CompletionCall 2 ?p, Log NoChoices,
         Log (RetriesExhausted 3 (Some ?m'))])"
    by code_simp
  have rd: "retry_delay default_config = 2" by (simp add: default_config_def)
  have nb: "''news'' \<noteq> [] \<and> strip ''news'' \<noteq> []" by code_simp
  note q0 = quota_backoff_grows [where cfg = default_config and i = 0 and j = 1 and m = ?m
      and m' = ?m' and limited = ?limited and failing = ?failing and p = ?p and le = None
      and evs = "[]", OF d ij j c1 c2 l0 l1 f0]
  from q0 rd have s0: "summarize_loop default_config ?limited ?p 0 None []
     = summarize_loop default_config ?limited ?p 1 (Some ?m)
         [CompletionCall 0 ?p, Log (AttemptFailed 1 ?m), Sleep 4]"
    by simp
  from s0 r1 have a: "summarize_loop default_config ?limited ?p 0 None []
     = (None, Some ?m,
        [CompletionCall 0 ?p, Log (AttemptFailed 1 ?m), Sleep 4,
         CompletionCall 1 ?p, Log (AttemptFailed 2 ?m), Sleep 8,
         CompletionCall 2 ?p, Log NoChoices, Log (RetriesExhausted 3 (Some ?m))])"
    by simp
  from q0 r2 rd have b: "summarize_loop default_config ?failing ?p 0 None []
     = (None, Some ?m',
        [CompletionCall 0 ?p, Log (AttemptFailed 1 ?m'), Sleep 2,
         CompletionCall 1 ?p, Log NoChoices, CompletionCall 2 ?p, Log NoChoices,
         Log (RetriesExhausted 3 (Some ?m'))])"
    by simp
  from a b c1 c2 nb show ?thesis
    by (simp add: deepseek_run_def)
qed

section \<open>Empty input to the summarizers\<close>

lemma fetch_run_no_calls: "call_indices (snd (fetch_run http limit)) = []"
  by (simp add: fetch_run_def fetch_try_def call_indices_simps
      split: http_result.splits field.splits)

lemma main_no_topics:
  assumes "fst (fetch_run (ranking_provider env) 50) = []"
  shows "call_indices (snd (main_run env)) = []"
proof -
  obtain evs where f: "fetch_run (ranking_provider env) 50 = ([], evs)"
    using assms by (cases "fetch_run (ranking_provider env) 50") simp
  from fetch_run_no_calls [of "ranking_provider env" 50] f have "call_indices evs = []"
    by simp
  then show ?thesis
    by (simp add: main_run_def main_try_def f call_indices_simps)
qed

text \<open>
  Claim C3, as amended. \<open>DeepSeekSummarizer.summarize\<close> returns \<open>None\<close> without any
  completion call when its content is empty or blank. \<open>WeiboSummarizer.summarize\<close> has no
  such check: for an empty batch the rendered content is empty, the one completion call is
  still made, and its outcome is returned. In the pipeline an empty batch never reaches
  the summarizer: when the fetch stage yields no topics, \<open>main\<close> makes no completion call.
\<close>

theorem empty_input_handling:
  "(content = [] \<or> strip content = [] \<longrightarrow>
      deepseek_run cfg api content context = (None, None, [Log ContentEmpty])
      \<and> call_indices (snd (snd (deepseek_run cfg api content context))) = [])
   \<and> render_content [] = []
   \<and> weibo_run api2 []
       = (case weibo_try (api2 0) of
            Inr s \<Rightarrow> (Some s, [CompletionCall 0 (WeiboPrompt [])])
          | Inl e \<Rightarrow> (None, [CompletionCall 0 (WeiboPrompt []), Log (SummarizeFailed (exn_message e))]))
   \<and> (fst (fetch_run (ranking_provider env) 50) = [] \<longrightarrow>
        call_indices (snd (main_run env)) = [])"
proof -
  have a: "content = [] \<or> strip content = [] \<longrightarrow>
      deepseek_run cfg api content context = (None, None, [Log ContentEmpty])
      \<and> call_indices (snd (snd (deepseek_run cfg api content context))) = []"
    by (auto simp: deepseek_run_def call_indices_simps)
  have b: "render_content [] = []"
    by (simp add: render_content_def enumerate_eq_zip)
  have c: "weibo_run api2 []
       = (case weibo_try (api2 0) of
            Inr s \<Rightarrow> (Some s, [CompletionCall 0 (WeiboPrompt [])])
          | Inl e \<Rightarrow> (None, [CompletionCall 0 (WeiboPrompt []), Log (SummarizeFailed (exn_message e))]))"
    by (cases "weibo_try (api2 0)") (simp_all add: weibo_run_def b)
  have d: "fst (fetch_run (ranking_provider env) 50) = [] \<longrightarrow>
        call_indices (snd (main_run env)) = []"
    using main_no_topics by blast
  from a b c d show ?thesis by blast
qed

theorem empty_input_handling_witness:
  "deepseek_run default_config (script (answer ''digest'') []) ''  '' '''' = (None, None, [Log ContentEmpty])
   \<and> strip (wide_space @ '' '' @ wide_space) = []
   \<and> deepseek_run default_config (script (answer ''digest'') []) (wide_space @ '' '' @ wide_space) ''''
       = (None, None, [Log ContentEmpty])
   \<and> call_indices (snd (main_run (sample_env (ranking 200 ''success'' []) (script (answer ''digest'') [])
          (script Sent [])))) = []"
proof -
  let ?env = "sample_env (ranking 200 ''success'' []) (script (answer ''digest'') []) (script Sent [])"
  let ?blank = "wide_space @ '' '' @ wide_space"
  have h1: "''  '' = [] \<or> strip ''  '' = []"
    by code_simp
  have s: "strip ?blank = []"
    by code_simp
  then have h1': "?blank = [] \<or> strip ?blank = []"
    by simp
  have h2: "fst (fetch_run (ranking_provider ?env) 50) = []"
    by (simp add: sample_env_def ranking_def fetch_run_def fetch_try_def slice_to_def)
  from empty_input_handling [of "''  ''" default_config "script (answer ''digest'') []" "''''"
      "script (answer ''digest'') []" ?env]
    empty_input_handling [of ?blank default_config "script (answer ''digest'') []" "''''"
      "script (answer ''digest'') []" ?env]
    h1 h1' h2 s
  show ?thesis by blast
qed

text \<open>
  \<open>WeiboSummarizer.summarize\<close> on the empty batch: the provider is called and its answer
  is returned as the summary.
\<close>

theorem weibo_summarize_calls_on_empty_batch:
  "weibo_run (script (answer ''digest'') []) []
     = (Some ''digest'', [CompletionCall 0 (WeiboPrompt [])])"
  by code_simp

section \<open>Properties of WeiboEmailNotifier\<close>

lemma session_indices_append:
  "session_indices (xs @ ys) = session_indices xs @ session_indices ys"
  by (simp add: session_indices_def)

lemma session_indices_Nil: "session_indices [] = []"
  by (simp add: session_indices_def)

lemma session_indices_Cons:
  "session_indices (e # es) = (case e of SmtpSession k m \<Rightarrow> [k] | _ \<Rightarrow> []) @ session_indices es"
  by (simp add: session_indices_def)

lemmas session_indices_simps = session_indices_append session_indices_Nil session_indices_Cons

lemma send_retry_step:
  assumes "attempt < 2" and "is_smtp_failure (smtp attempt)"
  shows "\<exists>evs'. send_loop smtp msg attempt evs = send_loop smtp msg (Suc attempt) evs'
           \<and> session_indices evs' = session_indices evs @ [attempt]"
proof -
  from assms(2) obtain m where m: "smtp attempt = SmtpFails m"
    by (cases "smtp attempt") (auto simp: is_smtp_failure_def)
  show ?thesis
    using assms(1) m
    apply (subst send_loop.simps)
    apply simp
    apply (rule exI, rule conjI, rule refl, simp add: session_indices_simps)
    done
qed

lemma send_prefix:
  "k < 3 \<Longrightarrow> \<forall>j<k. is_smtp_failure (smtp j) \<Longrightarrow>
   \<exists>evs'. send_loop smtp msg 0 [] = send_loop smtp msg k evs' \<and> session_indices evs' = [0..<k]"
proof (induction k)
  case 0
  show ?case by (rule exI [of _ "[]"]) (simp add: session_indices_simps)
next
  case (Suc k)
  then obtain evs1 where
    e1: "send_loop smtp msg 0 [] = send_loop smtp msg k evs1"
    and c1: "session_indices evs1 = [0..<k]"
    by auto
  from Suc.prems have "k < 2" "is_smtp_failure (smtp k)" by auto
  from send_retry_step [of k smtp msg evs1, OF this] obtain evs2 where
    e2: "send_loop smtp msg k evs1 = send_loop smtp msg (Suc k) evs2"
    and c2: "session_indices evs2 = session_indices evs1 @ [k]"
    by blast
  show ?case
    using e1 e2 c1 c2 by (intro exI [of _ evs2]) simp
qed

lemma send_loop_sent:
  "k < 3 \<Longrightarrow> smtp k = Sent \<Longrightarrow>
   send_loop smtp msg k evs = (evs @ [SmtpSession k msg], Inr True)"
  by (subst send_loop.simps) simp

lemma send_loop_other:
  "k < 3 \<Longrightarrow> smtp k = OtherFails m \<Longrightarrow>
   send_loop smtp msg k evs = (evs @ [SmtpSession k msg], Inl (Exn OSError m))"
  by (subst send_loop.simps) simp

lemma send_loop_third:
  "smtp 2 = SmtpFails m \<Longrightarrow>
   send_loop smtp msg 2 evs
     = (evs @ [SmtpSession 2 msg, Log (SendAttemptFailed 3 m)], Inl (Exn SMTPException m))"
  by (subst send_loop.simps) simp

lemma send_first_decisive:
  fixes smtp :: transport
  shows "(\<exists>k<3. (\<forall>j<k. is_smtp_failure (smtp j)) \<and> \<not> is_smtp_failure (smtp k)) \<or>
   (\<forall>j<3. is_smtp_failure (smtp j))"
  by (cases "is_smtp_failure (smtp 0)"; cases "is_smtp_failure (smtp 1)";
      cases "is_smtp_failure (smtp 2)")
     (auto simp: less_Suc_eq numeral_3_eq_3)

text \<open>
  Claim C5, as amended. \<open>send_email\<close> opens at most 3 mail sessions. A session that raises
  an \<open>SMTPException\<close>, of whatever subtype, is followed by the next attempt; after the third
  such failure the exception reaches the outer handler, its text is logged and \<open>False\<close> is
  returned. A session that raises any other exception is not retried: the outer handler
  logs it and \<open>False\<close> is returned at once. A session that goes through ends the loop with
  \<open>True\<close>.
\<close>

theorem send_email_retries_smtp_errors:
  assumes "k < 3" and "\<forall>j<k. is_smtp_failure (smtp j)"
  shows "(smtp k = Sent \<longrightarrow>
            send_email smtp summary topics = True
          \<and> session_indices (snd (send_run smtp summary topics)) = [0..<Suc k])
       \<and> (smtp k = OtherFails m \<longrightarrow>
            send_email smtp summary topics = False
          \<and> session_indices (snd (send_run smtp summary topics)) = [0..<Suc k]
          \<and> last (snd (send_run smtp summary topics)) = Log (SendFailed m))
       \<and> (k = 2 \<and> smtp k = SmtpFails m \<longrightarrow>
            send_email smtp summary topics = False
          \<and> session_indices (snd (send_run smtp summary topics)) = [0, 1, 2]
          \<and> last (snd (send_run smtp summary topics)) = Log (SendFailed m))
       \<and> length (session_indices (snd (send_run smtp summary topics))) \<le> 3"
proof -
  let ?msg = "generate_html summary topics"
  from send_prefix [OF assms, of ?msg] obtain evs' where
    pre: "send_loop smtp ?msg 0 [] = send_loop smtp ?msg k evs'"
    and ci: "session_indices evs' = [0..<k]"
    by blast
  have a: "smtp k = Sent \<longrightarrow>
            send_email smtp summary topics = True
          \<and> session_indices (snd (send_run smtp summary topics)) = [0..<Suc k]"
    using assms(1) pre ci
    by (auto simp: send_email_def send_run_def send_loop_sent session_indices_simps)
  have b: "smtp k = OtherFails m \<longrightarrow>
            send_email smtp summary topics = False
          \<and> session_indices (snd (send_run smtp summary topics)) = [0..<Suc k]
          \<and> last (snd (send_run smtp summary topics)) = Log (SendFailed m)"
    using assms(1) pre ci
    by (auto simp: send_email_def send_run_def send_loop_other session_indices_simps)
  have c: "k = 2 \<and> smtp k = SmtpFails m \<longrightarrow>
            send_email smtp summary topics = False
          \<and> session_indices (snd (send_run smtp summary topics)) = [0, 1, 2]
          \<and> last (snd (send_run smtp summary topics)) = Log (SendFailed m)"
  proof
    assume h: "k = 2 \<and> smtp k = SmtpFails m"
    have u: "[0..<2] = [0, 1::nat]" by (simp add: upt_rec)
    from h have k2: "k = 2" and s2: "smtp 2 = SmtpFails m" by auto
    from pre have "send_loop smtp ?msg 0 []
        = (evs' @ [SmtpSession 2 ?msg, Log (SendAttemptFailed 3 m)], Inl (Exn SMTPException m))"
      unfolding k2 by (simp only: send_loop_third [of smtp m, OF s2])
    moreover from h ci u have "session_indices evs' = [0, 1]" by simp
    ultimately show "send_email smtp summary topics = False
          \<and> session_indices (snd (send_run smtp summary topics)) = [0, 1, 2]
          \<and> last (snd (send_run smtp summary topics)) = Log (SendFailed m)"
      by (simp add: send_email_def send_run_def session_indices_simps)
  qed
  have d: "length (session_indices (snd (send_run smtp summary topics))) \<le> 3"
    using send_first_decisive [of smtp]
  proof
    assume "\<exists>k<3. (\<forall>j<k. is_smtp_failure (smtp j)) \<and> \<not> is_smtp_failure (smtp k)"
    then obtain i where i: "i < 3" "\<forall>j<i. is_smtp_failure (smtp j)" "\<not> is_smtp_failure (smtp i)"
      by blast
    from send_prefix [OF i(1,2), of ?msg] obtain evs2 where
      p2: "send_loop smtp ?msg 0 [] = send_loop smtp ?msg i evs2"
      and c2: "session_indices evs2 = [0..<i]"
      by blast
    from i(3) show ?thesis
      using i(1) p2 c2
      by (cases "smtp i")
         (auto simp: send_run_def send_loop_sent send_loop_other session_indices_simps
            is_smtp_failure_def)
  next
    assume all: "\<forall>j<3. is_smtp_failure (smtp j)"
    then have "\<forall>j<2. is_smtp_failure (smtp j)" by simp
    from send_prefix [of 2 smtp ?msg] this obtain evs2 where
      p2: "send_loop smtp ?msg 0 [] = send_loop smtp ?msg 2 evs2"
      and c2: "session_indices evs2 = [0..<2]"
      by auto
    from all have "is_smtp_failure (smtp 2)" by simp
    then obtain m2 where s2: "smtp 2 = SmtpFails m2"
      by (cases "smtp 2") (auto simp: is_smtp_failure_def)
    show ?thesis
      using p2 c2
      by (simp add: send_run_def send_loop_third [of smtp m2, OF s2] session_indices_simps)
  qed
  from a b c d show ?thesis by blast
qed

theorem send_email_retries_smtp_errors_witness:
  "send_email (script Sent [SmtpFails ''421 busy'']) ''digest'' [] = True
   \<and> session_indices (snd (send_run (script Sent [SmtpFails ''421 busy'']) ''digest'' [])) = [0, 1]
   \<and> send_email (script Sent [SmtpFails ''421 busy'', OtherFails ''timed out'']) ''digest'' [] = False
   \<and> send_email (script Sent [SmtpFails ''a'', SmtpFails ''b'', SmtpFails ''c'']) ''digest'' [] = False
   \<and> last (snd (send_run (script Sent [SmtpFails ''a'', SmtpFails ''b'', SmtpFails ''c'']) ''digest'' []))
       = Log (SendFailed ''c'')"
  using send_email_retries_smtp_errors [where k = 1 and smtp = "script Sent [SmtpFails ''421 busy'']"
      and summary = "''digest''" and topics = "[]"]
    send_email_retries_smtp_errors [where k = 1 and smtp = "script Sent [SmtpFails ''421 busy'', OtherFails ''timed out'']"
      and m = "''timed out''" and summary = "''digest''" and topics = "[]"]
    send_email_retries_smtp_errors [where k = 2 and smtp = "script Sent [SmtpFails ''a'', SmtpFails ''b'', SmtpFails ''c'']"
      and m = "''c''" and summary = "''digest''" and topics = "[]"]
  by (simp add: script_def is_smtp_failure_def less_Suc_eq numeral_2_eq_2)

text \<open>
  A refused connection on the first attempt: one session only, and \<open>False\<close>, although
  the next session would have gone through.
\<close>

theorem send_email_gives_up_on_other_error:
  "send_run (script Sent [OtherFails ''[Errno 111] Connection refused'']) ''digest'' []
     = (False,
        [SmtpSession 0 \<lparr>html_summary = ''digest'', html_rows = []\<rparr>,
         Log (SendFailed ''[Errno 111] Connection refused'')])"
  by (simp add: send_run_def send_loop.simps script_def generate_html_def enumerate_eq_zip)

text \<open>
  Claim C8. The rendered message has one row per topic of the first 30, numbered from 1:
  never more than 30 rows, and exactly 30 for a batch of 50.
\<close>

theorem rendered_rows_at_most_30:
  "length (html_rows (generate_html summary topics)) \<le> 30 \<and>
   length (html_rows (generate_html summary topics)) = min 30 (length topics) \<and>
   map row_word (html_rows (generate_html summary topics)) = map get_hotword (take 30 topics) \<and>
   map row_rank (html_rows (generate_html summary topics)) = [1..<Suc (min 30 (length topics))] \<and>
   length (html_rows (generate_html summary (replicate 50 t))) = 30"
proof -
  have rows: "html_rows (generate_html summary ts)
      = map (\<lambda>(i, t). render_row i t) (zip [1..<1 + length (take 30 ts)] (take 30 ts))" for ts
    by (simp add: generate_html_def enumerate_eq_zip)
  have w: "map row_word (map (\<lambda>(i, t). render_row i t) (zip is ts)) = map get_hotword (map snd (zip is ts))"
    for "is" ts
    by (induction "is" ts rule: list_induct2') (simp_all add: render_row_def)
  have r: "map row_rank (map (\<lambda>(i, t). render_row i t) (zip is ts)) = map fst (zip is ts)"
    for "is" ts
    by (induction "is" ts rule: list_induct2') (simp_all add: render_row_def)
  have 1: "length (html_rows (generate_html summary topics)) = min 30 (length topics)"
    unfolding rows length_map length_zip length_upt length_take by simp
  have n: "length [1..<1 + n] = n" for n :: nat
    by simp
  have s: "map snd (zip [1..<1 + length (take 30 topics)] (take 30 topics)) = take 30 topics"
    by (rule map_snd_zip) (rule n)
  have f: "map fst (zip [1..<1 + length (take 30 topics)] (take 30 topics))
      = [1..<1 + length (take 30 topics)]"
    by (rule map_fst_zip) (rule n)
  have 2: "map row_word (html_rows (generate_html summary topics)) = map get_hotword (take 30 topics)"
    unfolding rows w s ..
  have 3: "map row_rank (html_rows (generate_html summary topics)) = [1..<Suc (min 30 (length topics))]"
    unfolding rows r f length_take by (simp add: min.commute)
  have 4: "length (html_rows (generate_html summary (replicate 50 t))) = 30"
    unfolding rows length_map length_zip length_upt length_take length_replicate by simp
  from 1 2 3 4 show ?thesis by simp
qed

section \<open>Properties of the orchestrator\<close>

text \<open>
  Claim C9. With a complete configuration, when the ranking provider answers with a status
  code other than 200 the run ends aborted at the fetch stage (\<open>main\<close> returns \<open>False\<close>, exit
  code 1): the only effects are the construction of the fetcher, its one request and two
  error lines, so the Summarizer and the Notifier are neither constructed nor called.
\<close>

theorem provider_error_aborts_at_fetch:
  assumes "smtp_port_is_int env" and "truthy (tianapi_key env)" and "truthy (deepseek_api_key env)"
    and "truthy (email_sender env)" and "truthy (email_password env)"
    and "truthy (email_recipient env)"
    and "ranking_provider env = Body d" and "code_field d \<noteq> Holds 200"
  shows "fst (main_run env) = Aborted Fetch
       \<and> snd (main_run env)
           = [Constructed Fetcher, HttpGet, Log (ApiReturnedError (get_msg d)), Log NoTopicData]
       \<and> \<not> list_ex touches_later_stage (snd (main_run env))
       \<and> exit_code (fst (main_run env)) = 1"
proof -
  from assms(7,8) have f: "fetch_run (ranking_provider env) 50
      = ([], [HttpGet, Log (ApiReturnedError (get_msg d))])"
    by (simp add: fetch_run_def fetch_try_def)
  from assms(1-6) have "main_run env
      = (Aborted Fetch,
         [Constructed Fetcher, HttpGet, Log (ApiReturnedError (get_msg d)), Log NoTopicData])"
    by (simp add: main_run_def main_try_def f)
  then show ?thesis
    by (simp add: touches_later_stage_def exit_code_def returns_true_def)
qed

theorem provider_error_aborts_at_fetch_witness:
  "main_run (sample_env (ranking 500 ''bad key'' []) (script (answer ''a'') []) (script Sent []))
     = (Aborted Fetch,
        [Constructed Fetcher, HttpGet, Log (ApiReturnedError ''bad key''), Log NoTopicData])"
proof -
  let ?env = "sample_env (ranking 500 ''bad key'' []) (script (answer ''a'') []) (script Sent [])"
  let ?d = "\<lparr>code_field = Holds 500, msg_field = Holds ''bad key'',
          result_field = Holds \<lparr>list_field = Holds []\<rparr>\<rparr>"
  have "smtp_port_is_int ?env" "truthy (tianapi_key ?env)" "truthy (deepseek_api_key ?env)"
    "truthy (email_sender ?env)" "truthy (email_password ?env)" "truthy (email_recipient ?env)"
    "ranking_provider ?env = Body ?d" "code_field ?d \<noteq> Holds 200"
    by (simp_all add: sample_env_def ranking_def)
  from provider_error_aborts_at_fetch [OF this]
  show ?thesis by (simp add: get_msg_def prod_eq_iff)
qed

text \<open>
  Claim C10. Whatever is raised inside \<open>fetch_hot_topics\<close>, \<open>WeiboSummarizer.summarize\<close> or
  \<open>send_email\<close> is caught there, and the operation returns the empty list, \<open>None\<close> or
  \<open>False\<close>. So the handler of \<open>main\<close> itself is only reached by a failure of \<open>main\<close>'s own
  steps (the port number, the two audit files), never by a stage. A provider error and a
  successful answer with an empty ranking give the orchestrator the same empty list.
\<close>

theorem stages_return_plain_values:
  "(fetch_try http limit = (evs, Inl e) \<longrightarrow> fetch_hot_topics http limit = [])
   \<and> (weibo_try (api 0) = Inl e' \<longrightarrow> weibo_summarize api topics = None)
   \<and> (send_loop smtp (generate_html summary topics) 0 [] = (evs', Inl e'') \<longrightarrow>
        send_email smtp summary topics = False)
   \<and> (fst (main_run env) = Aborted Unexpected \<longrightarrow>
        \<not> smtp_port_is_int env \<or> \<not> raw_file_writable env \<or> \<not> summary_file_writable env)
   \<and> (c \<noteq> 200 \<longrightarrow>
        fetch_hot_topics (ranking c m xs) limit = []
        \<and> fetch_hot_topics (ranking c m xs) limit = fetch_hot_topics (ranking 200 m' []) limit)"
proof -
  have a: "fetch_try http limit = (evs, Inl e) \<longrightarrow> fetch_hot_topics http limit = []"
    by (simp add: fetch_hot_topics_def fetch_run_def)
  have b: "weibo_try (api 0) = Inl e' \<longrightarrow> weibo_summarize api topics = None"
    by (simp add: weibo_summarize_def weibo_run_def)
  have c: "send_loop smtp (generate_html summary topics) 0 [] = (evs', Inl e'') \<longrightarrow>
        send_email smtp summary topics = False"
    by (simp add: send_email_def send_run_def)
  have d: "fst (main_run env) = Aborted Unexpected \<longrightarrow>
        \<not> smtp_port_is_int env \<or> \<not> raw_file_writable env \<or> \<not> summary_file_writable env"
    by (auto simp: main_run_def main_try_def Let_def
        split: prod.splits sum.splits if_splits option.splits)
  have e: "c \<noteq> 200 \<longrightarrow>
        fetch_hot_topics (ranking c m xs) limit = []
        \<and> fetch_hot_topics (ranking c m xs) limit = fetch_hot_topics (ranking 200 m' []) limit"
    by (simp add: fetch_hot_topics_def fetch_run_def fetch_try_def ranking_def slice_to_def)
  from a b c d e show ?thesis by blast
qed

theorem stages_return_plain_values_witness:
  "fetch_try (RequestFails ''timed out'') 50 = ([HttpGet], Inl (Exn RequestException ''timed out''))
   \<and> fetch_hot_topics (RequestFails ''timed out'') 50 = []
   \<and> weibo_try (script no_choices [] 0) = Inl (Exn IndexError ''list index out of range'')
   \<and> weibo_summarize (script no_choices []) [sample_topic ''a''] = None
   \<and> send_email (script Sent [OtherFails ''refused'']) ''digest'' [sample_topic ''a''] = False
   \<and> fst (main_run ((sample_env (ranking 200 ''ok'' [sample_topic ''a'']) (script no_choices [])
         (script Sent [])) \<lparr>raw_file_writable := False\<rparr>)) = Aborted Unexpected
   \<and> fetch_hot_topics (ranking 500 ''bad key'' [sample_topic ''a'']) 50
        = fetch_hot_topics (ranking 200 ''ok'' []) 50"
proof -
  let ?env = "(sample_env (ranking 200 ''ok'' [sample_topic ''a'']) (script no_choices [])
         (script Sent [])) \<lparr>raw_file_writable := False\<rparr>"
  let ?msg = "generate_html ''digest'' [sample_topic ''a'']"
  have h1: "fetch_try (RequestFails ''timed out'') 50
      = ([HttpGet], Inl (Exn RequestException ''timed out''))"
    by (simp add: fetch_try_def)
  have h2: "weibo_try (script no_choices [] 0) = Inl (Exn IndexError ''list index out of range'')"
    by (simp add: weibo_try_def script_def no_choices_def)
  have h3: "send_loop (script Sent [OtherFails ''refused'']) ?msg 0 []
      = ([SmtpSession 0 ?msg], Inl (Exn OSError ''refused''))"
    by (simp add: send_loop.simps script_def)
  have h4: "fst (main_run ?env) = Aborted Unexpected"
    by (simp add: main_run_def main_try_def sample_env_def ranking_def fetch_run_def
        fetch_try_def slice_to_def)
  have h5: "(500::int) \<noteq> 200" by simp
  from stages_return_plain_values
    [where http = "RequestFails ''timed out''" and limit = 50 and evs = "[HttpGet]"
      and e = "Exn RequestException ''timed out''" and api = "script no_choices []"
      and e' = "Exn IndexError ''list index out of range''" and topics = "[sample_topic ''a'']"
      and smtp = "script Sent [OtherFails ''refused'']" and summary = "''digest''"
      and evs' = "[SmtpSession 0 ?msg]" and e'' = "Exn OSError ''refused''" and env = ?env
      and c = 500 and m = "''bad key''" and xs = "[sample_topic ''a'']" and m' = "''ok''"]
    h1 h2 h3 h4 h5
  show ?thesis by blast
qed

end
